theory Spec2Isabelle
  imports Complex_Main "HOL-Library.Multiset"
begin

section \<open>Volume-profile breakout strategy: the calculator\<close>

text \<open>
  The development embeds \<^verbatim>\<open>services/volume_profile_service.py\<close>,
  \<^verbatim>\<open>models/trading_models.py\<close> and \<^verbatim>\<open>strategy/volume_profile_strategy.py\<close>.

  Conventions. A Python \<^verbatim>\<open>float\<close> is an exact real number (rounding is not modelled);
  a Python \<^verbatim>\<open>int\<close> is an \<^typ>\<open>int\<close>; a \<^verbatim>\<open>datetime\<close> is a point on an integer time
  axis. A \<^verbatim>\<open>dict\<close> that the code iterates over is an association list in insertion
  order with distinct keys; a \<^verbatim>\<open>dict\<close> that is only looked up is a map.
  Every exception that the code can raise is a value of \<open>error\<close>; the
  \<^verbatim>\<open>except Exception\<close> handlers of the source turn it into the handler's result.
  Record fields keep the source's names; a prefix (\<open>lq_\<close>, \<open>vp_\<close>, \<open>pos_\<close>, \<open>sig_\<close>,
  \<open>tr_\<close>) is added where two classes share a field name.
\<close>

subsection \<open>Python primitives\<close>

datatype error =
    NoTickData | InsufficientData | DegenerateRange
  | ZeroDivisionError | IndexError | KeyError | ValueError
  | AttributeError string | TypeError string

text \<open>\<^verbatim>\<open>int(x)\<close> on a float truncates toward zero.\<close>

definition py_int :: "real \<Rightarrow> int" where
  "py_int x = (if 0 \<le> x then \<lfloor>x\<rfloor> else \<lceil>x\<rceil>)"

text \<open>\<^verbatim>\<open>xs[i]\<close>: a negative index counts from the end, out of range raises.\<close>

definition py_get :: "'a list \<Rightarrow> int \<Rightarrow> error + 'a" where
  "py_get xs i =
     (if 0 \<le> i \<and> i < int (length xs) then Inr (xs ! nat i)
      else if i < 0 \<and> - int (length xs) \<le> i then Inr (xs ! nat (int (length xs) + i))
      else Inl IndexError)"

text \<open>\<^verbatim>\<open>d[k] += v\<close> on a \<^verbatim>\<open>defaultdict(int)\<close>: a present key keeps its place, a new
  key is appended with \<open>0 + v\<close>.\<close>

fun dict_add :: "('k \<times> int) list \<Rightarrow> 'k \<Rightarrow> int \<Rightarrow> ('k \<times> int) list" where
  "dict_add [] k v = [(k, 0 + v)]"
| "dict_add ((k', w) # d) k v =
     (if k' = k then (k', w + v) # d else (k', w) # dict_add d k v)"

text \<open>\<^verbatim>\<open>d[k]\<close> on a \<^verbatim>\<open>defaultdict(int)\<close>: a missing key reads as \<open>0\<close>.\<close>

definition dict_get :: "('k \<times> int) list \<Rightarrow> 'k \<Rightarrow> int" where
  "dict_get d k = (case map_of d k of Some v \<Rightarrow> v | None \<Rightarrow> 0)"

text \<open>\<^verbatim>\<open>max(items, key=lambda x: x[1])\<close>: the first item, in iteration order, whose
  value no later item exceeds strictly. \<open>max_from\<close> is the scan once a first item is
  in hand; the built-in raises \<^verbatim>\<open>ValueError\<close> on an empty sequence.\<close>

fun max_from :: "('k \<times> int) \<Rightarrow> ('k \<times> int) list \<Rightarrow> ('k \<times> int)" where
  "max_from best [] = best"
| "max_from best (x # xs) = (if snd x > snd best then max_from x xs else max_from best xs)"

definition py_max_by_value :: "('k \<times> int) list \<Rightarrow> error + ('k \<times> int)" where
  "py_max_by_value items = (case items of [] \<Rightarrow> Inl ValueError | x # xs \<Rightarrow> Inr (max_from x xs))"

text \<open>\<^verbatim>\<open>xs.index(x)\<close>: the position of the first occurrence.\<close>

fun py_index :: "'a list \<Rightarrow> 'a \<Rightarrow> error + nat" where
  "py_index [] x = Inl ValueError"
| "py_index (y # ys) x =
     (if y = x then Inr 0
      else (case py_index ys x of Inl e \<Rightarrow> Inl e | Inr i \<Rightarrow> Inr (Suc i)))"

subsection \<open>Data model\<close>

text \<open>\<^verbatim>\<open>LiveQuote\<close>: the fields that the calculator and the strategy read.\<close>

record LiveQuote =
  lq_symbol :: string
  ltp :: real
  volume :: int
  lq_timestamp :: int

record VolumeProfileData =
  vp_symbol :: string
  poc :: real
  vah :: real
  val :: real
  profile_high :: real
  profile_low :: real
  total_volume :: int
  value_area_volume :: int
  volume_by_price :: "(real \<times> int) list"
  price_levels :: "real list"
  hvn_levels :: "real list"
  lvn_levels :: "real list"
  poc_strength :: real
  profile_width :: real
  profile_width_pct :: real
  calculation_time :: int
  data_start_time :: int
  data_end_time :: int
  num_ticks :: nat

text \<open>\<^verbatim>\<open>VolumeProfileCalculator\<close>: its configuration and its two stores.\<close>

record VolumeProfileCalculator =
  num_price_levels :: int
  value_area_pct :: real
  tick_data :: "string \<rightharpoonup> LiveQuote list"
  calculated_profiles :: "string \<rightharpoonup> VolumeProfileData"

subsection \<open>Value area\<close>

text \<open>The \<^verbatim>\<open>while\<close> loop of \<^verbatim>\<open>_calculate_value_area\<close>. The two pointers are list
  positions; the result is the final pointers and the accumulated volume.\<close>

function expand_value_area ::
  "(real \<times> int) list \<Rightarrow> real list \<Rightarrow> real \<Rightarrow> nat \<Rightarrow> nat \<Rightarrow> int \<Rightarrow> nat \<times> nat \<times> int" where
  "expand_value_area vbp sorted_prices target_volume upper_idx lower_idx accumulated_volume =
     (if real_of_int accumulated_volume < target_volume then
        (let upper_volume =
               (if int upper_idx < int (length sorted_prices) - 1
                then dict_get vbp (sorted_prices ! (upper_idx + 1)) else 0);
             lower_volume =
               (if lower_idx > 0
                then dict_get vbp (sorted_prices ! (lower_idx - 1)) else 0)
         in if upper_volume \<ge> lower_volume \<and> int upper_idx < int (length sorted_prices) - 1 then
              expand_value_area vbp sorted_prices target_volume (upper_idx + 1) lower_idx
                (accumulated_volume + dict_get vbp (sorted_prices ! (upper_idx + 1)))
            else if lower_idx > 0 then
              expand_value_area vbp sorted_prices target_volume upper_idx (lower_idx - 1)
                (accumulated_volume + dict_get vbp (sorted_prices ! (lower_idx - 1)))
            else (upper_idx, lower_idx, accumulated_volume))
      else (upper_idx, lower_idx, accumulated_volume))"
  by pat_completeness auto
termination
  by (relation "measure (\<lambda>(vbp, sp, t, u, l, a). (length sp - u) + l)") auto

declare expand_value_area.simps [simp del]

text \<open>\<^verbatim>\<open>_calculate_value_area\<close>. The only statement of the \<^verbatim>\<open>try\<close> body that can
  raise is \<^verbatim>\<open>sorted_prices.index(poc)\<close>; the handler then returns the whole price
  range, and its own \<^verbatim>\<open>sorted_prices[-1]\<close> raises on an empty dictionary.\<close>

definition calculate_value_area ::
  "real \<Rightarrow> (real \<times> int) list \<Rightarrow> real \<Rightarrow> int \<Rightarrow> error + (real \<times> real \<times> int)" where
  "calculate_value_area pct vbp poc_price total_vol =
     (let target_volume = real_of_int total_vol * (pct / 100);
          sorted_prices = sort (map fst vbp)
      in case py_index sorted_prices poc_price of
           Inr poc_idx \<Rightarrow>
             (case expand_value_area vbp sorted_prices target_volume poc_idx poc_idx
                     (dict_get vbp poc_price) of
                (upper_idx, lower_idx, accumulated_volume) \<Rightarrow>
                  Inr (sorted_prices ! upper_idx, sorted_prices ! lower_idx, accumulated_volume))
         | Inl e \<Rightarrow>
             (case py_get sorted_prices (-1) of
                Inl e' \<Rightarrow> Inl e'
              | Inr hi \<Rightarrow> Inr (hi, sorted_prices ! 0, total_vol)))"

subsection \<open>Profile construction\<close>

text \<open>The time filter of \<^verbatim>\<open>calculate_volume_profile\<close>: applied when either bound is
  given, and then each bound that is given excludes the ticks beyond it.\<close>

definition filter_ticks :: "int option \<Rightarrow> int option \<Rightarrow> LiveQuote list \<Rightarrow> LiveQuote list" where
  "filter_ticks start_time end_time ticks =
     (if start_time \<noteq> None \<or> end_time \<noteq> None then
        filter (\<lambda>tick.
          \<not> (case start_time of Some s \<Rightarrow> lq_timestamp tick < s | None \<Rightarrow> False) \<and>
          \<not> (case end_time of Some e \<Rightarrow> lq_timestamp tick > e | None \<Rightarrow> False)) ticks
      else ticks)"

text \<open>The bucket of a price: \<^verbatim>\<open>price_levels[bucket_idx]\<close> for
  \<^verbatim>\<open>bucket_idx = min(int((price - price_min) / bucket_size), N - 1)\<close>.\<close>

definition bucket_price_of :: "int \<Rightarrow> real \<Rightarrow> real \<Rightarrow> real list \<Rightarrow> real \<Rightarrow> error + real" where
  "bucket_price_of n price_min bucket_size levels price =
     py_get levels (min (py_int ((price - price_min) / bucket_size)) (n - 1))"

text \<open>The bucketing loop: each tick adds its volume to its bucket.\<close>

fun accumulate_volume ::
  "int \<Rightarrow> real \<Rightarrow> real \<Rightarrow> real list \<Rightarrow> (real \<times> int) list \<Rightarrow> (real \<times> int) list
     \<Rightarrow> error + (real \<times> int) list" where
  "accumulate_volume n price_min bucket_size levels vbp [] = Inr vbp"
| "accumulate_volume n price_min bucket_size levels vbp ((price, vol) # rest) =
     (case bucket_price_of n price_min bucket_size levels price of
        Inl e \<Rightarrow> Inl e
      | Inr bucket_price \<Rightarrow>
          accumulate_volume n price_min bucket_size levels (dict_add vbp bucket_price vol) rest)"

text \<open>The distinct elements of a list in the order of their first occurrence: the order
  in which keys enter a dictionary when they are inserted one after the other.\<close>

fun first_seen :: "'a list \<Rightarrow> 'a list" where
  "first_seen [] = []"
| "first_seen (x # xs) = x # filter (\<lambda>y. y \<noteq> x) (first_seen xs)"

text \<open>\<^verbatim>\<open>calculate_volume_profile\<close>, lines 96 to 123: the price range, the bucket
  width, the price levels and the volume of each bucket. \<open>Inl\<close> is an early
  \<^verbatim>\<open>return None\<close> or a raised exception. \<^verbatim>\<open>min(prices)\<close> and \<^verbatim>\<open>max(prices)\<close> are
  taken of a list that holds ten prices at least.\<close>

definition volume_distribution ::
  "int \<Rightarrow> LiveQuote list \<Rightarrow> error + (real list \<times> (real \<times> int) list)" where
  "volume_distribution n ticks =
     (let prices = map ltp ticks;
          volumes = map volume ticks;
          price_min = Min (set prices);
          price_max = Max (set prices);
          price_range = price_max - price_min in
      if price_range = 0 then Inl DegenerateRange
      else if n = 0 then Inl ZeroDivisionError
      else let bucket_size = price_range / real_of_int n;
               levels = map (\<lambda>i. price_min + real_of_int i * bucket_size) [0..n] in
      case accumulate_volume n price_min bucket_size levels [] (zip prices volumes) of
        Inl e \<Rightarrow> Inl e
      | Inr vbp \<Rightarrow> Inr (levels, vbp))"

text \<open>\<^verbatim>\<open>calculate_volume_profile\<close>, lines 125 to 168: the point of control, the value
  area, the volume nodes, the quality metrics and the profile object.\<close>

definition profile_of_distribution ::
  "real \<Rightarrow> string \<Rightarrow> int \<Rightarrow> LiveQuote list \<Rightarrow> real list \<Rightarrow> (real \<times> int) list
     \<Rightarrow> error + VolumeProfileData" where
  "profile_of_distribution pct symb now ticks levels vbp =
     (case py_max_by_value vbp of
        Inl e \<Rightarrow> Inl e
      | Inr (poc_price, poc_volume) \<Rightarrow>
      let total_vol = sum_list (map snd vbp) in
      (case calculate_value_area pct vbp poc_price total_vol of
        Inl e \<Rightarrow> Inl e
      | Inr (vah_price, val_price, va_volume) \<Rightarrow>
      let avg_volume = real_of_int total_vol / real (length vbp);
          hvn = map fst (filter (\<lambda>(price, vol). real_of_int vol \<ge> 1.5 * avg_volume) vbp);
          lvn = map fst (filter (\<lambda>(price, vol). real_of_int vol \<le> 0.5 * avg_volume) vbp);
          strength = (if avg_volume > 0 then real_of_int poc_volume / avg_volume else 0);
          width = vah_price - val_price;
          width_pct = (if poc_price > 0 then width / poc_price * 100 else 0)
      in Inr \<lparr> vp_symbol = symb, poc = poc_price, vah = vah_price, val = val_price,
                profile_high = Max (set (map ltp ticks)), profile_low = Min (set (map ltp ticks)),
                total_volume = total_vol, value_area_volume = va_volume,
                volume_by_price = vbp, price_levels = levels,
                hvn_levels = sort hvn, lvn_levels = sort lvn,
                poc_strength = strength, profile_width = width,
                profile_width_pct = width_pct, calculation_time = now,
                data_start_time = lq_timestamp (hd ticks),
                data_end_time = lq_timestamp (last ticks),
                num_ticks = length ticks \<rparr>))"

text \<open>The \<^verbatim>\<open>try\<close> body of \<^verbatim>\<open>calculate_volume_profile\<close> after the tick list has been
  read: the two guards on the tick count, then the two phases above.\<close>

definition build_profile ::
  "int \<Rightarrow> real \<Rightarrow> string \<Rightarrow> int option \<Rightarrow> int option \<Rightarrow> int \<Rightarrow> LiveQuote list
     \<Rightarrow> error + VolumeProfileData" where
  "build_profile n pct symb start_time end_time now all_ticks =
     (if all_ticks = [] then Inl NoTickData
      else let ticks = filter_ticks start_time end_time all_ticks in
      if length ticks < 10 then Inl InsufficientData
      else case volume_distribution n ticks of
             Inl e \<Rightarrow> Inl e
           | Inr (levels, vbp) \<Rightarrow> profile_of_distribution pct symb now ticks levels vbp)"

text \<open>\<^verbatim>\<open>self.tick_data.get(symbol, [])\<close> after the time filter: the window a call works on.\<close>

definition tick_window ::
  "VolumeProfileCalculator \<Rightarrow> string \<Rightarrow> int option \<Rightarrow> int option \<Rightarrow> LiveQuote list" where
  "tick_window c symb start_time end_time =
     filter_ticks start_time end_time (case tick_data c symb of Some ts \<Rightarrow> ts | None \<Rightarrow> [])"

text \<open>\<^verbatim>\<open>calculate_volume_profile\<close>: the result and the calculator afterwards. The
  profile is cached only on success; every failure returns \<^verbatim>\<open>None\<close>.\<close>

definition calculate_volume_profile ::
  "VolumeProfileCalculator \<Rightarrow> string \<Rightarrow> int option \<Rightarrow> int option \<Rightarrow> int
     \<Rightarrow> VolumeProfileData option \<times> VolumeProfileCalculator" where
  "calculate_volume_profile c symb start_time end_time now =
     (case build_profile (num_price_levels c) (value_area_pct c) symb start_time end_time now
             (case tick_data c symb of Some ts \<Rightarrow> ts | None \<Rightarrow> []) of
        Inl e \<Rightarrow> (None, c)
      | Inr vp_data \<Rightarrow>
          (Some vp_data, c\<lparr>calculated_profiles := (calculated_profiles c)(symb \<mapsto> vp_data)\<rparr>))"

definition get_cached_profile :: "VolumeProfileCalculator \<Rightarrow> string \<Rightarrow> VolumeProfileData option" where
  "get_cached_profile c symb = calculated_profiles c symb"

section \<open>The strategy\<close>

subsection \<open>Floats that may be infinite\<close>

text \<open>
  \<^verbatim>\<open>Position.__post_init__\<close> stores \<^verbatim>\<open>float('inf')\<close> in \<^verbatim>\<open>lowest_price\<close>, and the
  trailing stop is computed from that field. The two fields that the infinity can reach,
  \<^verbatim>\<open>lowest_price\<close> and \<^verbatim>\<open>current_stop_loss\<close>, are therefore floats with the IEEE
  special values; comparisons with \<open>NaN\<close> are false. Every other float is finite.
\<close>

datatype pyfloat = Finite real | PosInf | NegInf | NaN

fun fl_lt :: "pyfloat \<Rightarrow> pyfloat \<Rightarrow> bool" where
  "fl_lt (Finite a) (Finite b) = (a < b)"
| "fl_lt (Finite a) PosInf = True"
| "fl_lt NegInf (Finite b) = True"
| "fl_lt NegInf PosInf = True"
| "fl_lt _ _ = False"

fun fl_le :: "pyfloat \<Rightarrow> pyfloat \<Rightarrow> bool" where
  "fl_le (Finite a) (Finite b) = (a \<le> b)"
| "fl_le NaN _ = False"
| "fl_le _ NaN = False"
| "fl_le _ PosInf = True"
| "fl_le NegInf _ = True"
| "fl_le _ _ = False"

text \<open>\<^verbatim>\<open>x * f\<close> for a finite factor \<open>f\<close>.\<close>

fun fl_scale :: "pyfloat \<Rightarrow> real \<Rightarrow> pyfloat" where
  "fl_scale (Finite a) f = Finite (a * f)"
| "fl_scale PosInf f = (if 0 < f then PosInf else if f < 0 then NegInf else NaN)"
| "fl_scale NegInf f = (if 0 < f then NegInf else if f < 0 then PosInf else NaN)"
| "fl_scale NaN f = NaN"

text \<open>\<^verbatim>\<open>min(a, b)\<close> returns \<open>b\<close> only when \<open>b < a\<close>.\<close>

definition fl_min :: "pyfloat \<Rightarrow> pyfloat \<Rightarrow> pyfloat" where
  "fl_min a b = (if fl_lt b a then b else a)"

subsection \<open>Dictionaries that are iterated\<close>

text \<open>\<^verbatim>\<open>d[k] = v\<close>: a present key keeps its place, a new key goes to the end.\<close>

fun dict_set :: "('k \<times> 'v) list \<Rightarrow> 'k \<Rightarrow> 'v \<Rightarrow> ('k \<times> 'v) list" where
  "dict_set [] k v = [(k, v)]"
| "dict_set ((k', w) # d) k v = (if k' = k then (k', v) # d else (k', w) # dict_set d k v)"

text \<open>\<^verbatim>\<open>del d[k]\<close> for a key that is present.\<close>

fun dict_del :: "('k \<times> 'v) list \<Rightarrow> 'k \<Rightarrow> ('k \<times> 'v) list" where
  "dict_del [] k = []"
| "dict_del ((k', w) # d) k = (if k' = k then d else (k', w) # dict_del d k)"

text \<open>\<^verbatim>\<open>xs[:k]\<close>: a negative bound counts from the end.\<close>

definition py_prefix :: "'a list \<Rightarrow> int \<Rightarrow> 'a list" where
  "py_prefix xs k = (if 0 \<le> k then take (nat k) xs else take (nat (int (length xs) + k)) xs)"

subsection \<open>Data model of the strategy\<close>

datatype SignalType = LONG | SHORT

text \<open>\<^verbatim>\<open>VolumeProfileStrategyConfig\<close>: the fields that the strategy reads.\<close>

record VolumeProfileStrategyConfig =
  portfolio_value :: real
  risk_per_trade_pct :: real
  max_positions :: int
  min_breakout_distance_pct :: real
  min_volume_ratio :: real
  min_poc_distance_pct :: real
  min_confidence :: real
  require_volume_confirmation :: bool
  avoid_low_volume_nodes :: bool
  target_multiplier :: real
  trailing_stop_pct :: real
  enable_trailing_stops :: bool

text \<open>\<^verbatim>\<open>VolumeProfileSignal\<close>: the fields that the strategy reads from a signal.\<close>

record VolumeProfileSignal =
  sig_symbol :: string
  sig_signal_type :: SignalType
  sig_breakout_level :: real
  sig_entry_price :: real
  sig_stop_loss :: real
  sig_target_price :: real
  sig_confidence :: real
  sig_timestamp :: int

text \<open>\<^verbatim>\<open>Position\<close>, without the identifiers of the stop and target orders, which
  nothing reads.\<close>

record Position =
  pos_symbol :: string
  signal_type :: SignalType
  entry_price :: real
  quantity :: int
  stop_loss :: real
  target_price :: real
  vp_poc :: real
  vp_vah :: real
  vp_val :: real
  breakout_level :: real
  entry_time :: int
  signal_time :: int
  current_price :: real
  highest_price :: real
  lowest_price :: pyfloat
  current_stop_loss :: pyfloat
  order_id :: "string option"
  unrealized_pnl :: real
  max_favorable_excursion :: real
  max_adverse_excursion :: real

text \<open>\<^verbatim>\<open>TradeResult\<close>: the fields that the strategy reads or that tell a trade apart.\<close>

record TradeResult =
  tr_symbol :: string
  tr_signal_type :: SignalType
  tr_entry_price :: real
  tr_exit_price :: real
  tr_quantity :: int
  tr_exit_reason :: string
  tr_gross_pnl :: real
  tr_net_pnl :: real
  tr_commission :: real

text \<open>The mutable state of \<^verbatim>\<open>VolumeProfileBreakoutStrategy\<close>.\<close>

record strategy =
  strategy_config :: VolumeProfileStrategyConfig
  positions :: "(string \<times> Position) list"
  completed_trades :: "TradeResult list"
  volume_profiles :: "string \<rightharpoonup> VolumeProfileData"
  signals_generated_today :: "VolumeProfileSignal list"
  daily_pnl :: real
  live_quotes :: "string \<rightharpoonup> LiveQuote"
  breakout_detected :: "(string \<times> string) list"

subsection \<open>Positions\<close>

text \<open>\<^verbatim>\<open>Position.__post_init__\<close>.\<close>

definition Position_post_init :: "Position \<Rightarrow> Position" where
  "Position_post_init p =
     p\<lparr>current_stop_loss := Finite (stop_loss p),
       highest_price := (if signal_type p = LONG then entry_price p else 0),
       lowest_price := (if signal_type p = SHORT then Finite (entry_price p) else PosInf)\<rparr>"

text \<open>The constructor that \<^verbatim>\<open>@dataclass\<close> generates for \<^verbatim>\<open>Position\<close>: the twelve
  required fields, the defaults of the others, then \<^verbatim>\<open>__post_init__\<close>.\<close>

definition Position_new ::
  "string \<Rightarrow> SignalType \<Rightarrow> real \<Rightarrow> int \<Rightarrow> real \<Rightarrow> real \<Rightarrow> real \<Rightarrow> real \<Rightarrow> real \<Rightarrow> real
     \<Rightarrow> int \<Rightarrow> int \<Rightarrow> Position" where
  "Position_new symb st entry qty stop target p_poc p_vah p_val level t_entry t_signal =
     Position_post_init
       \<lparr>pos_symbol = symb, signal_type = st, entry_price = entry, quantity = qty,
        stop_loss = stop, target_price = target, vp_poc = p_poc, vp_vah = p_vah,
        vp_val = p_val, breakout_level = level, entry_time = t_entry, signal_time = t_signal,
        current_price = 0, highest_price = 0, lowest_price = Finite 0,
        current_stop_loss = Finite 0, order_id = None, unrealized_pnl = 0,
        max_favorable_excursion = 0, max_adverse_excursion = 0\<rparr>"

text \<open>\<^verbatim>\<open>Position.update_price_extremes\<close>.\<close>

definition update_price_extremes :: "Position \<Rightarrow> real \<Rightarrow> Position" where
  "update_price_extremes p price =
     (if signal_type p = LONG then
        p\<lparr>current_price := price,
          highest_price := max (highest_price p) price,
          max_favorable_excursion := max (max_favorable_excursion p) (price - entry_price p),
          max_adverse_excursion := min (max_adverse_excursion p) (price - entry_price p)\<rparr>
      else
        p\<lparr>current_price := price,
          lowest_price := fl_min (lowest_price p) (Finite price),
          max_favorable_excursion := max (max_favorable_excursion p) (entry_price p - price),
          max_adverse_excursion := min (max_adverse_excursion p) (entry_price p - price)\<rparr>)"

text \<open>\<^verbatim>\<open>_update_trailing_stop\<close>. Nothing in its body can raise.\<close>

definition update_trailing_stop ::
  "VolumeProfileStrategyConfig \<Rightarrow> Position \<Rightarrow> real \<Rightarrow> Position" where
  "update_trailing_stop cfg position price =
     (if signal_type position = LONG then
        (let new_stop = Finite (highest_price position * (1 - trailing_stop_pct cfg / 100))
         in if fl_lt (current_stop_loss position) new_stop
            then position\<lparr>current_stop_loss := new_stop\<rparr> else position)
      else
        (let new_stop = fl_scale (lowest_price position) (1 + trailing_stop_pct cfg / 100)
         in if fl_lt new_stop (current_stop_loss position)
            then position\<lparr>current_stop_loss := new_stop\<rparr> else position))"

text \<open>The body of \<^verbatim>\<open>_update_position_tracking\<close> once the position has been read.\<close>

definition track_position :: "VolumeProfileStrategyConfig \<Rightarrow> Position \<Rightarrow> real \<Rightarrow> Position" where
  "track_position cfg position price =
     (let p1 = update_price_extremes position price;
          p2 = p1\<lparr>unrealized_pnl :=
                 (if signal_type p1 = LONG
                  then (price - entry_price p1) * real_of_int (quantity p1)
                  else (entry_price p1 - price) * real_of_int \<bar>quantity p1\<bar>)\<rparr>
      in if enable_trailing_stops cfg then update_trailing_stop cfg p2 price else p2)"

text \<open>\<^verbatim>\<open>_update_position_tracking\<close>: \<^verbatim>\<open>self.positions[symbol]\<close> raises \<^verbatim>\<open>KeyError\<close> for
  an instrument without a position, and the handler leaves the state as it is.\<close>

definition update_position_tracking :: "strategy \<Rightarrow> string \<Rightarrow> LiveQuote \<Rightarrow> strategy" where
  "update_position_tracking s symb live_quote =
     (case map_of (positions s) symb of
        None \<Rightarrow> s
      | Some position \<Rightarrow>
          s\<lparr>positions :=
              dict_set (positions s) symb (track_position (strategy_config s) position (ltp live_quote))\<rparr>)"

subsection \<open>Breakout detection\<close>

text \<open>The \<^verbatim>\<open>try\<close> body of \<^verbatim>\<open>_check_for_breakout\<close>: the dictionary of flags afterwards,
  or the exception. Float division by zero raises in Python.\<close>

definition check_for_breakout_body ::
  "strategy \<Rightarrow> string \<Rightarrow> LiveQuote \<Rightarrow> error + (string \<times> string) list" where
  "check_for_breakout_body s symb live_quote =
     (if map_of (breakout_detected s) symb \<noteq> None then Inr (breakout_detected s)
      else case volume_profiles s symb of
        None \<Rightarrow> Inl KeyError
      | Some vp_data \<Rightarrow>
          (let current_price = ltp live_quote in
           if current_price > vah vp_data then
             (if vah vp_data = 0 then Inl ZeroDivisionError
              else let distance_pct = (current_price - vah vp_data) / vah vp_data * 100 in
                if distance_pct \<ge> min_breakout_distance_pct (strategy_config s)
                then Inr (dict_set (breakout_detected s) symb ''VAH'')
                else Inr (breakout_detected s))
           else if current_price < val vp_data then
             (if val vp_data = 0 then Inl ZeroDivisionError
              else let distance_pct = (val vp_data - current_price) / val vp_data * 100 in
                if distance_pct \<ge> min_breakout_distance_pct (strategy_config s)
                then Inr (dict_set (breakout_detected s) symb ''VAL'')
                else Inr (breakout_detected s))
           else Inr (breakout_detected s)))"

text \<open>\<^verbatim>\<open>_check_for_breakout\<close>: an exception is logged and changes nothing.\<close>

definition check_for_breakout :: "strategy \<Rightarrow> string \<Rightarrow> LiveQuote \<Rightarrow> strategy" where
  "check_for_breakout s symb live_quote =
     (case check_for_breakout_body s symb live_quote of
        Inl e \<Rightarrow> s
      | Inr flags \<Rightarrow> s\<lparr>breakout_detected := flags\<rparr>)"

text \<open>A run of ticks of one instrument through \<^verbatim>\<open>_check_for_breakout\<close>, and the number
  of ticks in it at which the dictionary of flags changes, that is, at which a breakout
  is recorded.\<close>

fun check_ticks :: "strategy \<Rightarrow> string \<Rightarrow> LiveQuote list \<Rightarrow> strategy" where
  "check_ticks s symb [] = s"
| "check_ticks s symb (q # qs) = check_ticks (check_for_breakout s symb q) symb qs"

fun breakouts_recorded :: "strategy \<Rightarrow> string \<Rightarrow> LiveQuote list \<Rightarrow> nat" where
  "breakouts_recorded s symb [] = 0"
| "breakouts_recorded s symb (q # qs) =
     (if breakout_detected (check_for_breakout s symb q) \<noteq> breakout_detected s then 1 else 0)
       + breakouts_recorded (check_for_breakout s symb q) symb qs"

text \<open>A run of ticks of one instrument through \<^verbatim>\<open>_update_position_tracking\<close>.\<close>

fun track_ticks :: "strategy \<Rightarrow> string \<Rightarrow> LiveQuote list \<Rightarrow> strategy" where
  "track_ticks s symb [] = s"
| "track_ticks s symb (q # qs) = track_ticks (update_position_tracking s symb q) symb qs"

subsection \<open>Signals\<close>

text \<open>\<^verbatim>\<open>_calculate_signal_confidence\<close>: four additions to a score that starts at zero,
  then the cap at one. The comparisons and additions of its \<^verbatim>\<open>try\<close> body cannot raise.
  The strategy object is an argument because the method receives \<^verbatim>\<open>self\<close>.\<close>

definition calculate_signal_confidence ::
  "strategy \<Rightarrow> VolumeProfileData \<Rightarrow> real \<Rightarrow> real \<Rightarrow> bool \<Rightarrow> bool \<Rightarrow> real \<Rightarrow> real" where
  "calculate_signal_confidence s vp_data entry volume_ratio near_hvn near_lvn distance_from_poc_pct =
     (let c0 = 0;
          c1 = c0 + (if volume_ratio \<ge> 2.0 then 0.30
                     else if volume_ratio \<ge> 1.5 then 0.20
                     else if volume_ratio \<ge> 1.0 then 0.10 else 0);
          c2 = c1 + (if distance_from_poc_pct \<ge> 2.0 then 0.25
                     else if distance_from_poc_pct \<ge> 1.5 then 0.20
                     else if distance_from_poc_pct \<ge> 1.0 then 0.15 else 0);
          c3 = c2 + (if near_hvn then 0.25 else if \<not> near_lvn then 0.15 else 0.05);
          c4 = c3 + (if poc_strength vp_data \<ge> 2.0 then 0.20
                     else if poc_strength vp_data \<ge> 1.5 then 0.15 else 0.10)
      in min c4 1.0)"

text \<open>The \<^verbatim>\<open>try\<close> body of \<^verbatim>\<open>_evaluate_breakout_signal\<close>. After the two filters it
  reads \<^verbatim>\<open>vp_data.low_volume_nodes\<close>; class \<^verbatim>\<open>VolumeProfileData\<close> has the fields
  \<^verbatim>\<open>hvn_levels\<close> and \<^verbatim>\<open>lvn_levels\<close> and no attribute of that name, so the read raises
  and the statements after it are never reached. The assignments of lines 276 to 287
  (direction, stop and target) cannot raise and feed only those statements.\<close>

definition evaluate_breakout_signal_body ::
  "strategy \<Rightarrow> string \<Rightarrow> string \<Rightarrow> LiveQuote \<Rightarrow> VolumeProfileData
     \<Rightarrow> error + VolumeProfileSignal option" where
  "evaluate_breakout_signal_body s symb breakout_type live_quote vp_data =
     (let entry = ltp live_quote in
      if poc vp_data = 0 then Inl ZeroDivisionError
      else let distance_from_poc_pct = \<bar>entry - poc vp_data\<bar> / poc vp_data * 100 in
      if distance_from_poc_pct < min_poc_distance_pct (strategy_config s) then Inr None
      else let volume_ratio = 1.0 :: real in
      if require_volume_confirmation (strategy_config s)
         \<and> volume_ratio < min_volume_ratio (strategy_config s) then Inr None
      else Inl (AttributeError ''low_volume_nodes''))"

text \<open>\<^verbatim>\<open>_evaluate_breakout_signal\<close>: the handler returns \<^verbatim>\<open>None\<close>.\<close>

definition evaluate_breakout_signal ::
  "strategy \<Rightarrow> string \<Rightarrow> string \<Rightarrow> LiveQuote \<Rightarrow> VolumeProfileData \<Rightarrow> VolumeProfileSignal option" where
  "evaluate_breakout_signal s symb breakout_type live_quote vp_data =
     (case evaluate_breakout_signal_body s symb breakout_type live_quote vp_data of
        Inl e \<Rightarrow> None
      | Inr r \<Rightarrow> r)"

subsection \<open>Opening a position\<close>

text \<open>\<^verbatim>\<open>create_position_from_signal\<close> evaluates the arguments of its call of
  \<^verbatim>\<open>Position\<close> in order; the tenth is \<^verbatim>\<open>signal.poc\<close>, and \<^verbatim>\<open>VolumeProfileSignal\<close> has no
  such attribute. (The keywords \<^verbatim>\<open>initial_stop_loss\<close>, \<^verbatim>\<open>poc\<close>, \<^verbatim>\<open>vah\<close>, \<^verbatim>\<open>val\<close> and
  \<^verbatim>\<open>breakout_type\<close> are not parameters of \<^verbatim>\<open>Position\<close> either.)\<close>

definition create_position_from_signal ::
  "VolumeProfileSignal \<Rightarrow> int \<Rightarrow> string \<Rightarrow> error + Position" where
  "create_position_from_signal signal qty oid = Inl (AttributeError ''poc'')"

text \<open>\<^verbatim>\<open>_execute_signal\<close>, lines 415 to 424: the quantity, or \<^verbatim>\<open>None\<close> where the
  method returns \<^verbatim>\<open>False\<close> before it creates a position.\<close>

definition position_size :: "VolumeProfileStrategyConfig \<Rightarrow> VolumeProfileSignal \<Rightarrow> int option" where
  "position_size cfg signal =
     (let risk_amount = portfolio_value cfg * risk_per_trade_pct cfg / 100;
          price_risk = \<bar>sig_entry_price signal - sig_stop_loss signal\<bar>
      in if price_risk \<le> 0 then None
         else let qty = py_int (risk_amount / price_risk)
              in if qty \<le> 0 then None else Some qty)"

text \<open>\<^verbatim>\<open>_execute_signal\<close>: the returned flag and the state afterwards. \<open>oid\<close> is the
  order identifier, which the source builds from the clock.\<close>

definition execute_signal :: "strategy \<Rightarrow> VolumeProfileSignal \<Rightarrow> string \<Rightarrow> bool \<times> strategy" where
  "execute_signal s signal oid =
     (case position_size (strategy_config s) signal of
        None \<Rightarrow> (False, s)
      | Some qty \<Rightarrow>
          (case create_position_from_signal signal
                  (if sig_signal_type signal = LONG then qty else - qty) oid of
             Inl e \<Rightarrow> (False, s)
           | Inr position \<Rightarrow>
               (True, s\<lparr>positions := dict_set (positions s) (sig_symbol signal) position,
                        signals_generated_today := signals_generated_today s @ [signal]\<rparr>)))"

subsection \<open>Scanning for signals\<close>

text \<open>The first loop of \<^verbatim>\<open>scan_for_breakout_signals\<close>, over a copy of the items of
  \<^verbatim>\<open>breakout_detected\<close>.\<close>

fun collect_signals :: "strategy \<Rightarrow> (string \<times> string) list \<Rightarrow> VolumeProfileSignal list" where
  "collect_signals s [] = []"
| "collect_signals s ((symb, breakout_type) # rest) =
     (if map_of (positions s) symb \<noteq> None then collect_signals s rest
      else case (live_quotes s symb, volume_profiles s symb) of
        (Some live_quote, Some vp_data) \<Rightarrow>
          (case evaluate_breakout_signal s symb breakout_type live_quote vp_data of
             Some signal \<Rightarrow> signal # collect_signals s rest
           | None \<Rightarrow> collect_signals s rest)
      | _ \<Rightarrow> collect_signals s rest)"

text \<open>The second loop: each signal at or above the confidence floor is executed.\<close>

fun execute_signals :: "strategy \<Rightarrow> VolumeProfileSignal list \<Rightarrow> string \<Rightarrow> strategy" where
  "execute_signals s [] oid = s"
| "execute_signals s (signal # rest) oid =
     (if sig_confidence signal \<ge> min_confidence (strategy_config s)
      then execute_signals (snd (execute_signal s signal oid)) rest oid
      else execute_signals s rest oid)"

text \<open>\<^verbatim>\<open>scan_for_breakout_signals\<close>. \<^verbatim>\<open>sort(key=..., reverse=True)\<close> is stable, so it
  is the reverse of the stable ascending sort of the reversed list.\<close>

definition scan_for_breakout_signals :: "strategy \<Rightarrow> string \<Rightarrow> strategy" where
  "scan_for_breakout_signals s oid =
     (if breakout_detected s = [] then s
      else let new_signals = collect_signals s (breakout_detected s);
               ranked = rev (sort_key sig_confidence (rev new_signals));
               available_slots = max_positions (strategy_config s) - int (length (positions s))
           in execute_signals s (py_prefix ranked available_slots) oid)"

subsection \<open>Monitoring and closing\<close>

definition should_exit_on_stop_loss :: "Position \<Rightarrow> real \<Rightarrow> bool" where
  "should_exit_on_stop_loss position price =
     (if signal_type position = LONG then fl_le (Finite price) (current_stop_loss position)
      else fl_le (current_stop_loss position) (Finite price))"

definition should_exit_on_target :: "Position \<Rightarrow> real \<Rightarrow> bool" where
  "should_exit_on_target position price =
     (if signal_type position = LONG then price \<ge> target_price position
      else price \<le> target_price position)"

text \<open>The first loop of \<^verbatim>\<open>monitor_positions\<close>: the list \<^verbatim>\<open>positions_to_close\<close>.\<close>

fun positions_to_close ::
  "strategy \<Rightarrow> (string \<times> Position) list \<Rightarrow> (string \<times> string \<times> string) list" where
  "positions_to_close s [] = []"
| "positions_to_close s ((symb, position) # rest) =
     (case live_quotes s symb of
        None \<Rightarrow> positions_to_close s rest
      | Some live_quote \<Rightarrow>
          (let breakout_type =
                 (if signal_type position = LONG then ''VAH_BREAKOUT'' else ''VAL_BREAKOUT'')
           in if should_exit_on_stop_loss position (ltp live_quote)
              then (symb, ''STOP_LOSS'', breakout_type) # positions_to_close s rest
              else if should_exit_on_target position (ltp live_quote)
              then (symb, ''TARGET'', breakout_type) # positions_to_close s rest
              else positions_to_close s rest))"

text \<open>\<^verbatim>\<open>create_trade_result_from_position\<close> computes the gross profit and then evaluates
  the arguments of its call of \<^verbatim>\<open>TradeResult\<close> in order; the ninth is \<^verbatim>\<open>position.poc\<close>,
  and \<^verbatim>\<open>Position\<close> names that field \<^verbatim>\<open>vp_poc\<close>, so the read raises.\<close>

definition create_trade_result_from_position ::
  "Position \<Rightarrow> real \<Rightarrow> string \<Rightarrow> string \<Rightarrow> real \<Rightarrow> error + TradeResult" where
  "create_trade_result_from_position position exit_price exit_reason breakout_type commission =
     Inl (AttributeError ''poc'')"

text \<open>\<^verbatim>\<open>_close_position\<close>: the trade is appended, the profit booked and the position
  deleted in this order, all after the trade result has been created; an exception
  before that leaves the state as it was.\<close>

definition close_position :: "strategy \<Rightarrow> string \<Rightarrow> string \<Rightarrow> string \<Rightarrow> strategy" where
  "close_position s symb reason breakout_type =
     (case map_of (positions s) symb of
        None \<Rightarrow> s
      | Some position \<Rightarrow>
          (case live_quotes s symb of
             None \<Rightarrow> s
           | Some live_quote \<Rightarrow>
               (case create_trade_result_from_position position (ltp live_quote) reason
                       breakout_type 0 of
                  Inl e \<Rightarrow> s
                | Inr trade_result \<Rightarrow>
                    s\<lparr>completed_trades := completed_trades s @ [trade_result],
                      daily_pnl := daily_pnl s + tr_net_pnl trade_result,
                      positions := dict_del (positions s) symb\<rparr>)))"

fun close_positions :: "strategy \<Rightarrow> (string \<times> string \<times> string) list \<Rightarrow> strategy" where
  "close_positions s [] = s"
| "close_positions s ((symb, reason, breakout_type) # rest) =
     close_positions (close_position s symb reason breakout_type) rest"

definition monitor_positions :: "strategy \<Rightarrow> strategy" where
  "monitor_positions s = close_positions s (positions_to_close s (positions s))"

definition spec_poc :: "(real \<times> int) list \<Rightarrow> real" where
  "spec_poc vbp =
     Min (set (map fst (filter (\<lambda>b. snd b = Max (set (map snd vbp))) vbp)))"

definition tie_window :: "LiveQuote list" where
  "tie_window =
     \<lparr>lq_symbol = ''S'', ltp = 12, volume = 9, lq_timestamp = 0\<rparr> #
     map (\<lambda>t. \<lparr>lq_symbol = ''S'', ltp = 10, volume = 1, lq_timestamp = t\<rparr>) [1..9]"

definition tie_calculator :: VolumeProfileCalculator where
  "tie_calculator = \<lparr>num_price_levels = 2, value_area_pct = 70,
     tick_data = [''S'' \<mapsto> tie_window], calculated_profiles = Map.empty\<rparr>"



text \<open>A window with one negative tick volume: ten units at price 10, then minus one at
  price 11, nine at price 13 and seven ticks without volume at price 10, in three
  buckets keyed 10, 11 and 12.\<close>

definition negative_volume_calculator :: VolumeProfileCalculator where
  "negative_volume_calculator = \<lparr>num_price_levels = 3, value_area_pct = 70,
     tick_data = [''S'' \<mapsto>
       [\<lparr>lq_symbol = ''S'', ltp = 10, volume = 10, lq_timestamp = 0\<rparr>,
        \<lparr>lq_symbol = ''S'', ltp = 11, volume = - 1, lq_timestamp = 1\<rparr>,
        \<lparr>lq_symbol = ''S'', ltp = 13, volume = 9, lq_timestamp = 2\<rparr>] @
       map (\<lambda>t. \<lparr>lq_symbol = ''S'', ltp = 10, volume = 0, lq_timestamp = t\<rparr>) [3..9]],
     calculated_profiles = Map.empty\<rparr>"

subsection \<open>Example states of the strategy\<close>

text \<open>The default configuration of \<^verbatim>\<open>config/settings.py\<close>.\<close>

definition default_config :: VolumeProfileStrategyConfig where
  "default_config =
     \<lparr>portfolio_value = 100000, risk_per_trade_pct = 1, max_positions = 5,
      min_breakout_distance_pct = 0.3, min_volume_ratio = 1.5, min_poc_distance_pct = 1,
      min_confidence = 0.65, require_volume_confirmation = True,
      avoid_low_volume_nodes = True, target_multiplier = 2, trailing_stop_pct = 0.5,
      enable_trailing_stops = True\<rparr>"

definition quote_at :: "real \<Rightarrow> LiveQuote" where
  "quote_at price = \<lparr>lq_symbol = ''S'', ltp = price, volume = 100, lq_timestamp = 0\<rparr>"

text \<open>A profile with the value area from 95 to 105 around a POC of 100.\<close>

definition example_profile :: VolumeProfileData where
  "example_profile =
     \<lparr>vp_symbol = ''S'', poc = 100, vah = 105, val = 95, profile_high = 110,
      profile_low = 90, total_volume = 1000, value_area_volume = 700,
      volume_by_price = [(95, 100), (100, 500), (105, 100), (90, 150), (110, 150)],
      price_levels = [90, 95, 100, 105, 110], hvn_levels = [100], lvn_levels = [95, 105],
      poc_strength = 2.5, profile_width = 10, profile_width_pct = 10,
      calculation_time = 0, data_start_time = 0, data_end_time = 0, num_ticks = 10\<rparr>"

text \<open>No position, no flag; the last quote of the instrument is at 110.\<close>

definition idle_strategy :: strategy where
  "idle_strategy =
     \<lparr>strategy_config = default_config, positions = [], completed_trades = [],
      volume_profiles = [''S'' \<mapsto> example_profile], signals_generated_today = [],
      daily_pnl = 0, live_quotes = [''S'' \<mapsto> quote_at 110], breakout_detected = []\<rparr>"

text \<open>The same with the upper breakout of the instrument flagged.\<close>

definition pending_strategy :: strategy where
  "pending_strategy = idle_strategy\<lparr>breakout_detected := [(''S'', ''VAH'')]\<rparr>"

text \<open>The signal of the sizing scenario: entry 100, stop 90.\<close>

definition example_signal :: VolumeProfileSignal where
  "example_signal =
     \<lparr>sig_symbol = ''S'', sig_signal_type = LONG, sig_breakout_level = 105,
      sig_entry_price = 100, sig_stop_loss = 90, sig_target_price = 120,
      sig_confidence = 0.8, sig_timestamp = 0\<rparr>"

text \<open>A long position entered at 100 with stop 90 and target 110, after a tick at 116
  has trailed its stop to 115.42.\<close>

definition long_position :: Position where
  "long_position =
     track_position default_config (Position_new ''S'' LONG 100 100 90 110 100 105 95 105 0 0) 116"

text \<open>A short position entered at 100 with stop 110 and target 90.\<close>

definition short_position :: Position where
  "short_position = Position_new ''S'' SHORT 100 (- 100) 110 90 100 105 95 95 0 0"

text \<open>The long position is open and the last quote is at 112: at or below its stop and
  at or above its target.\<close>

definition holding_strategy :: strategy where
  "holding_strategy =
     idle_strategy\<lparr>positions := [(''S'', long_position)],
                   live_quotes := [''S'' \<mapsto> quote_at 112]\<rparr>"

definition short_strategy :: strategy where
  "short_strategy = idle_strategy\<lparr>positions := [(''S'', short_position)]\<rparr>"

section \<open>Properties of the calculator\<close>

subsection \<open>The volume dictionary\<close>

lemma dict_add_keys:
  "map fst (dict_add d k v) = (if k \<in> set (map fst d) then map fst d else map fst d @ [k])"
  by (induction d k v rule: dict_add.induct) auto

lemma dict_add_distinct:
  "distinct (map fst d) \<Longrightarrow> distinct (map fst (dict_add d k v))"
  by (simp add: dict_add_keys)

lemma dict_add_sum:
  "sum_list (map snd (dict_add d k v)) = sum_list (map snd d) + v"
  by (induction d k v rule: dict_add.induct) auto

lemma dict_add_nonneg:
  "\<forall>x\<in>set d. 0 \<le> snd x \<Longrightarrow> 0 \<le> v \<Longrightarrow> \<forall>x\<in>set (dict_add d k v). 0 \<le> snd x"
  by (induction d k v rule: dict_add.induct) auto


subsection \<open>The bucketing loop\<close>

lemma accumulate_volume_distinct:
  "accumulate_volume n pm bs lv d pvs = Inr d' \<Longrightarrow> distinct (map fst d)
     \<Longrightarrow> distinct (map fst d')"
  by (induction n pm bs lv d pvs rule: accumulate_volume.induct)
     (auto simp: dict_add_distinct split: sum.splits)

lemma accumulate_volume_sum:
  "accumulate_volume n pm bs lv d pvs = Inr d'
     \<Longrightarrow> sum_list (map snd d') = sum_list (map snd d) + sum_list (map snd pvs)"
  by (induction n pm bs lv d pvs rule: accumulate_volume.induct)
     (auto simp: dict_add_sum split: sum.splits)

lemma accumulate_volume_nonneg:
  "accumulate_volume n pm bs lv d pvs = Inr d' \<Longrightarrow> \<forall>x\<in>set d. 0 \<le> snd x
     \<Longrightarrow> \<forall>x\<in>set pvs. 0 \<le> snd x \<Longrightarrow> \<forall>x\<in>set d'. 0 \<le> snd x"
proof (induction n pm bs lv d pvs rule: accumulate_volume.induct)
  case (1 n pm bs lv d)
  then show ?case by simp
next
  case (2 n pm bs lv d price vol rest)
  from "2.prems"(1) obtain bp where
    bp: "bucket_price_of n pm bs lv price = Inr bp"
    and rest: "accumulate_volume n pm bs lv (dict_add d bp vol) rest = Inr d'"
    by (auto split: sum.splits)
  have "\<forall>x\<in>set (dict_add d bp vol). 0 \<le> snd x"
    using dict_add_nonneg [of d vol bp] "2.prems"(2,3) by simp
  then show ?case
    using "2.IH" [OF bp rest] "2.prems"(3) by simp
qed





subsection \<open>The maximum\<close>

lemma max_from_ge_start: "snd b \<le> snd (max_from b xs)"
proof (induction xs arbitrary: b)
  case Nil
  show ?case by simp
next
  case (Cons x xs)
  show ?case using Cons [of x] Cons [of b] by auto
qed

lemma max_from_split:
  "\<exists>ys zs. b # xs = ys @ max_from b xs # zs \<and> (\<forall>y\<in>set ys. snd y < snd (max_from b xs))
     \<and> (\<forall>z\<in>set zs. snd z \<le> snd (max_from b xs))"
proof (induction xs arbitrary: b)
  case Nil
  have "[b] = [] @ b # [] \<and> (\<forall>y\<in>set []. snd y < snd b) \<and> (\<forall>z\<in>set []. snd z \<le> snd b)"
    by simp
  then show ?case unfolding max_from.simps by blast
next
  case (Cons x xs)
  show ?case
  proof (cases "snd x > snd b")
    case True
    then have eq: "max_from b (x # xs) = max_from x xs" by simp
    from Cons [of x] obtain ys zs where
      s: "x # xs = ys @ max_from x xs # zs"
      and lo: "\<forall>y\<in>set ys. snd y < snd (max_from x xs)"
      and hi: "\<forall>z\<in>set zs. snd z \<le> snd (max_from x xs)" by blast
    have "snd b < snd (max_from x xs)"
      using True max_from_ge_start [of x xs] by simp
    then have "b # x # xs = (b # ys) @ max_from x xs # zs \<and>
      (\<forall>y\<in>set (b # ys). snd y < snd (max_from x xs)) \<and>
      (\<forall>z\<in>set zs. snd z \<le> snd (max_from x xs))"
      using s lo hi by simp
    then show ?thesis unfolding eq by blast
  next
    case False
    then have eq: "max_from b (x # xs) = max_from b xs" by simp
    from Cons [of b] obtain ys zs where
      s: "b # xs = ys @ max_from b xs # zs"
      and lo: "\<forall>y\<in>set ys. snd y < snd (max_from b xs)"
      and hi: "\<forall>z\<in>set zs. snd z \<le> snd (max_from b xs)" by blast
    show ?thesis
    proof (cases ys)
      case Nil
      then have m: "max_from b xs = b" and zs: "zs = xs" using s by auto
      have "b # x # xs = [] @ b # (x # xs) \<and> (\<forall>y\<in>set []. snd y < snd b) \<and>
        (\<forall>z\<in>set (x # xs). snd z \<le> snd b)"
        using hi m zs False by auto
      then show ?thesis unfolding eq m by blast
    next
      case (Cons y ys')
      then have y: "y = b" and xs: "xs = ys' @ max_from b xs # zs" using s by auto
      have "snd b < snd (max_from b xs)" using lo Cons y by simp
      then have "snd x < snd (max_from b xs)" using False by simp
      then have "b # x # xs = (b # x # ys') @ max_from b xs # zs \<and>
        (\<forall>y\<in>set (b # x # ys'). snd y < snd (max_from b xs)) \<and>
        (\<forall>z\<in>set zs. snd z \<le> snd (max_from b xs))"
        using xs lo hi Cons y by auto
      then show ?thesis unfolding eq by blast
    qed
  qed
qed

lemma py_max_by_value_first:
  assumes "py_max_by_value items = Inr (k, v)"
  shows "\<exists>ys zs. items = ys @ (k, v) # zs \<and> (\<forall>y\<in>set ys. snd y < v) \<and> (\<forall>z\<in>set zs. snd z \<le> v)"
proof (cases items)
  case Nil
  then show ?thesis using assms by (simp add: py_max_by_value_def)
next
  case (Cons x xs)
  then have m: "max_from x xs = (k, v)" using assms by (simp add: py_max_by_value_def)
  show ?thesis using max_from_split [of x xs] unfolding m Cons by simp
qed

lemma py_index_Inr: "py_index xs x = Inr i \<Longrightarrow> i < length xs \<and> xs ! i = x"
  by (induction xs arbitrary: i) (auto split: if_splits sum.splits)

lemma py_index_mem: "x \<in> set xs \<Longrightarrow> \<exists>i. py_index xs x = Inr i"
  by (induction xs) (auto split: sum.splits)

lemma dict_get_distinct:
  "distinct (map fst d) \<Longrightarrow> map (dict_get d) (map fst d) = map snd d"
  by (induction d) (auto simp: dict_get_def image_iff split: option.splits)

lemma dict_get_nonneg: "\<forall>x\<in>set d. 0 \<le> snd x \<Longrightarrow> 0 \<le> dict_get d k"
  by (auto simp: dict_get_def split: option.splits dest!: map_of_SomeD)

lemma sum_list_map_sort:
  fixes f :: "'a::linorder \<Rightarrow> int"
  shows "sum_list (map f (sort xs)) = sum_list (map f xs)"
proof -
  have "sum_list (map f (sort xs)) = sum_mset (image_mset f (mset (sort xs)))"
    by (metis mset_map sum_mset_sum_list)
  also have "\<dots> = sum_mset (image_mset f (mset xs))" by simp
  also have "\<dots> = sum_list (map f xs)" by (metis mset_map sum_mset_sum_list)
  finally show ?thesis .
qed

lemma sorted_keys_total:
  "distinct (map fst d) \<Longrightarrow>
     sum_list (map (dict_get d) (sort (map fst d))) = sum_list (map snd d)"
  using dict_get_distinct [of d] by (simp only: sum_list_map_sort)

lemma sum_all_positions:
  fixes g :: "'a \<Rightarrow> int"
  assumes "sp \<noteq> []"
  shows "(\<Sum>i = 0..length sp - 1. g (sp ! i)) = sum_list (map g sp)"
proof -
  have "{0..length sp - 1} = {0..<length sp}" using assms by (cases sp) auto
  then show ?thesis by (simp add: sum_list_sum_nth)
qed

lemma expand_halt:
  "\<not> real_of_int a < t \<Longrightarrow> expand_value_area vbp sp t u l a = (u, l, a)"
  by (subst expand_value_area.simps) simp

lemma expand_up:
  "real_of_int a < t \<Longrightarrow> int u < int (length sp) - 1
     \<Longrightarrow> (if l > 0 then dict_get vbp (sp ! (l - 1)) else 0) \<le> dict_get vbp (sp ! (u + 1))
     \<Longrightarrow> expand_value_area vbp sp t u l a =
         expand_value_area vbp sp t (u + 1) l (a + dict_get vbp (sp ! (u + 1)))"
  by (subst expand_value_area.simps) (simp add: Let_def)

lemma expand_down:
  "real_of_int a < t \<Longrightarrow> l > 0
     \<Longrightarrow> \<not> (int u < int (length sp) - 1 \<and> dict_get vbp (sp ! (l - 1)) \<le> dict_get vbp (sp ! (u + 1)))
     \<Longrightarrow> expand_value_area vbp sp t u l a =
         expand_value_area vbp sp t u (l - 1) (a + dict_get vbp (sp ! (l - 1)))"
  by (subst expand_value_area.simps) (auto simp add: Let_def)

lemma expand_break:
  "real_of_int a < t \<Longrightarrow> l = 0
     \<Longrightarrow> \<not> (int u < int (length sp) - 1 \<and> 0 \<le> dict_get vbp (sp ! (u + 1)))
     \<Longrightarrow> expand_value_area vbp sp t u l a = (u, l, a)"
  by (subst expand_value_area.simps) (auto simp add: Let_def)

lemma expand_value_area_inv:
  "expand_value_area vbp sp t u l a = (u', l', a') \<Longrightarrow> l \<le> u \<Longrightarrow> u < length sp
     \<Longrightarrow> a = (\<Sum>i = l..u. dict_get vbp (sp ! i))
     \<Longrightarrow> l' \<le> l \<and> u \<le> u' \<and> u' < length sp \<and> a' = (\<Sum>i = l'..u'. dict_get vbp (sp ! i))"
proof (induction vbp sp t u l a rule: expand_value_area.induct)
  case (1 vbp sp t u l a)
  let ?uv = "if int u < int (length sp) - 1 then dict_get vbp (sp ! (u + 1)) else 0"
  let ?lv = "if l > 0 then dict_get vbp (sp ! (l - 1)) else 0"
  show ?case
  proof (cases "real_of_int a < t")
    case False
    then have "(u', l', a') = (u, l, a)"
      using "1.prems"(1) by (simp add: expand_halt)
    then show ?thesis using "1.prems" by auto
  next
    case lt: True
    show ?thesis
    proof (cases "?uv \<ge> ?lv \<and> int u < int (length sp) - 1")
      case up: True
      then have up': "int u < int (length sp) - 1" "?lv \<le> dict_get vbp (sp ! (u + 1))"
        by auto
      have r: "expand_value_area vbp sp t (u + 1) l (a + dict_get vbp (sp ! (u + 1))) = (u', l', a')"
        using "1.prems"(1) expand_up [OF lt up'] by simp
      have s: "a + dict_get vbp (sp ! (u + 1)) = (\<Sum>i = l..u + 1. dict_get vbp (sp ! i))"
        using "1.prems"(2,4) by simp
      have "l \<le> u + 1" "u + 1 < length sp" using "1.prems"(2) up' by auto
      from "1.IH"(1) [OF lt refl refl up r this s]
      show ?thesis by simp
    next
      case nup: False
      show ?thesis
      proof (cases "l > 0")
        case down: True
        have nup': "\<not> (int u < int (length sp) - 1 \<and> dict_get vbp (sp ! (l - 1)) \<le> dict_get vbp (sp ! (u + 1)))"
          using nup down by auto
        have r: "expand_value_area vbp sp t u (l - 1) (a + dict_get vbp (sp ! (l - 1))) = (u', l', a')"
          using "1.prems"(1) expand_down [OF lt down nup'] by simp
        have "{l - 1..u} = insert (l - 1) {l..u}" using down "1.prems"(2) by auto
        then have s: "a + dict_get vbp (sp ! (l - 1)) = (\<Sum>i = l - 1..u. dict_get vbp (sp ! i))"
          using "1.prems"(4) down by simp
        have "l - 1 \<le> u" using "1.prems"(2) by simp
        from "1.IH"(2) [OF lt refl refl nup down r this "1.prems"(3) s]
        show ?thesis by auto
      next
        case False
        then have nup': "\<not> (int u < int (length sp) - 1 \<and> 0 \<le> dict_get vbp (sp ! (u + 1)))"
          using nup by auto
        have "(u', l', a') = (u, l, a)"
          using "1.prems"(1) expand_break [OF lt _ nup'] False by simp
        then show ?thesis using "1.prems" by auto
      qed
    qed
  qed
qed

lemma expand_value_area_stop:
  "expand_value_area vbp sp t u l a = (u', l', a') \<Longrightarrow> \<forall>k. 0 \<le> dict_get vbp k
     \<Longrightarrow> t \<le> real_of_int a' \<or> (l' = 0 \<and> length sp \<le> u' + 1)"
proof (induction vbp sp t u l a rule: expand_value_area.induct)
  case (1 vbp sp t u l a)
  let ?uv = "if int u < int (length sp) - 1 then dict_get vbp (sp ! (u + 1)) else 0"
  let ?lv = "if l > 0 then dict_get vbp (sp ! (l - 1)) else 0"
  show ?case
  proof (cases "real_of_int a < t")
    case False
    then have "(u', l', a') = (u, l, a)"
      using "1.prems"(1) by (simp add: expand_halt)
    then show ?thesis using False by auto
  next
    case lt: True
    show ?thesis
    proof (cases "?uv \<ge> ?lv \<and> int u < int (length sp) - 1")
      case up: True
      then have up': "int u < int (length sp) - 1" "?lv \<le> dict_get vbp (sp ! (u + 1))"
        by auto
      have r: "expand_value_area vbp sp t (u + 1) l (a + dict_get vbp (sp ! (u + 1))) = (u', l', a')"
        using "1.prems"(1) expand_up [OF lt up'] by simp
      show ?thesis using "1.IH"(1) [OF lt refl refl up r "1.prems"(2)] .
    next
      case nup: False
      show ?thesis
      proof (cases "l > 0")
        case down: True
        have nup': "\<not> (int u < int (length sp) - 1 \<and> dict_get vbp (sp ! (l - 1)) \<le> dict_get vbp (sp ! (u + 1)))"
          using nup down by auto
        have r: "expand_value_area vbp sp t u (l - 1) (a + dict_get vbp (sp ! (l - 1))) = (u', l', a')"
          using "1.prems"(1) expand_down [OF lt down nup'] by simp
        show ?thesis using "1.IH"(2) [OF lt refl refl nup down r "1.prems"(2)] .
      next
        case False
        then have nup': "\<not> (int u < int (length sp) - 1 \<and> 0 \<le> dict_get vbp (sp ! (u + 1)))"
          using nup by auto
        have "(u', l', a') = (u, l, a)"
          using "1.prems"(1) expand_break [OF lt _ nup'] False by simp
        then have res: "u' = u" "l' = l" by simp_all
        have "\<not> int u < int (length sp) - 1"
          using nup' "1.prems"(2) by auto
        then show ?thesis using res False by auto
      qed
    qed
  qed
qed

lemma first_seen_set: "set (first_seen xs) = set xs"
  by (induction xs) auto

lemma first_seen_append_new:
  "k \<notin> set ks \<Longrightarrow>
     filter (\<lambda>x. x \<notin> set ks) (first_seen (k # bps))
       = k # filter (\<lambda>x. x \<notin> set (ks @ [k])) (first_seen bps)"
proof -
  assume "k \<notin> set ks"
  moreover have "filter (\<lambda>x. x \<notin> set ks) (filter (\<lambda>y. y \<noteq> k) (first_seen bps))
      = filter (\<lambda>x. x \<notin> set (ks @ [k])) (first_seen bps)"
    by (simp add: conj_commute)
  ultimately show ?thesis by simp
qed

lemma first_seen_append_old:
  "k \<in> set ks \<Longrightarrow>
     filter (\<lambda>x. x \<notin> set ks) (first_seen (k # bps))
       = filter (\<lambda>x. x \<notin> set ks) (first_seen bps)"
proof -
  assume k: "k \<in> set ks"
  have "filter (\<lambda>x. x \<notin> set ks) (filter (\<lambda>y. y \<noteq> k) (first_seen bps))
      = filter (\<lambda>x. x \<notin> set ks) (first_seen bps)"
    using k by (auto intro: filter_cong)
  then show ?thesis using k by simp
qed

lemma accumulate_volume_keys:
  "accumulate_volume n pm bs lv d pvs = Inr d' \<Longrightarrow>
     \<exists>bps. map (bucket_price_of n pm bs lv) (map fst pvs) = map Inr bps \<and>
       map fst d' = map fst d @ filter (\<lambda>k. k \<notin> set (map fst d)) (first_seen bps)"
proof (induction n pm bs lv d pvs rule: accumulate_volume.induct)
  case (1 n pm bs lv d)
  then have "map (bucket_price_of n pm bs lv) (map fst []) = map Inr [] \<and>
       map fst d' = map fst d @ filter (\<lambda>k. k \<notin> set (map fst d)) (first_seen [])" by simp
  then show ?case by blast
next
  case (2 n pm bs lv d price vol rest)
  from "2.prems"(1) obtain bp where
    bp: "bucket_price_of n pm bs lv price = Inr bp"
    and rest: "accumulate_volume n pm bs lv (dict_add d bp vol) rest = Inr d'"
    by (auto split: sum.splits)
  from "2.IH" [OF bp rest] obtain bps where
    m: "map (bucket_price_of n pm bs lv) (map fst rest) = map Inr bps"
    and k: "map fst d' = map fst (dict_add d bp vol)
              @ filter (\<lambda>k. k \<notin> set (map fst (dict_add d bp vol))) (first_seen bps)"
    by blast
  have m': "map (bucket_price_of n pm bs lv) (map fst ((price, vol) # rest)) = map Inr (bp # bps)"
    using bp m by simp
  have k': "map fst d' = map fst d @ filter (\<lambda>k. k \<notin> set (map fst d)) (first_seen (bp # bps))"
  proof (cases "bp \<in> set (map fst d)")
    case True
    then have "map fst (dict_add d bp vol) = map fst d" by (simp add: dict_add_keys)
    then show ?thesis using k first_seen_append_old [OF True, of bps] by simp
  next
    case False
    then have "map fst (dict_add d bp vol) = map fst d @ [bp]" by (simp add: dict_add_keys)
    then show ?thesis using k first_seen_append_new [OF False, of bps] by simp
  qed
  show ?case using m' k' by blast
qed

lemma volume_distribution_InrD:
  assumes "volume_distribution n ticks = Inr (lv, vbp)"
  shows "lv = map (\<lambda>i. Min (set (map ltp ticks)) + real_of_int i *
                 ((Max (set (map ltp ticks)) - Min (set (map ltp ticks))) / real_of_int n)) [0..n] \<and>
         accumulate_volume n (Min (set (map ltp ticks)))
           ((Max (set (map ltp ticks)) - Min (set (map ltp ticks))) / real_of_int n) lv []
           (zip (map ltp ticks) (map volume ticks)) = Inr vbp"
proof -
  have "volume_distribution n ticks = Inl DegenerateRange \<or>
        volume_distribution n ticks = Inl ZeroDivisionError \<or>
        volume_distribution n ticks =
          (case accumulate_volume n (Min (set (map ltp ticks)))
                  ((Max (set (map ltp ticks)) - Min (set (map ltp ticks))) / real_of_int n)
                  (map (\<lambda>i. Min (set (map ltp ticks)) + real_of_int i *
                     ((Max (set (map ltp ticks)) - Min (set (map ltp ticks))) / real_of_int n)) [0..n])
                  [] (zip (map ltp ticks) (map volume ticks)) of
             Inl e \<Rightarrow> Inl e
           | Inr vbp \<Rightarrow> Inr (map (\<lambda>i. Min (set (map ltp ticks)) + real_of_int i *
                     ((Max (set (map ltp ticks)) - Min (set (map ltp ticks))) / real_of_int n)) [0..n], vbp))"
    unfolding volume_distribution_def Let_def by presburger
  then show ?thesis using assms by (auto split: sum.splits)
qed

lemma profile_of_distribution_InrD:
  assumes "profile_of_distribution pct symb now ticks lv vbp = Inr vp"
  shows "\<exists>pv. py_max_by_value vbp = Inr (poc vp, pv) \<and>
     calculate_value_area pct vbp (poc vp) (sum_list (map snd vbp))
       = Inr (vah vp, val vp, value_area_volume vp) \<and>
     volume_by_price vp = vbp \<and> total_volume vp = sum_list (map snd vbp) \<and>
     price_levels vp = lv \<and> profile_low vp = Min (set (map ltp ticks)) \<and>
     profile_high vp = Max (set (map ltp ticks))"
proof -
  let ?r = "profile_of_distribution pct symb now ticks lv vbp"
  have sel: "vp = projr ?r" using assms by simp
  from assms obtain pp pv where mx: "py_max_by_value vbp = Inr (pp, pv)"
    by (cases "py_max_by_value vbp") (auto simp: profile_of_distribution_def)
  from assms mx obtain h lo va where
    va: "calculate_value_area pct vbp pp (sum_list (map snd vbp)) = Inr (h, lo, va)"
    by (cases "calculate_value_area pct vbp pp (sum_list (map snd vbp))")
       (auto simp: profile_of_distribution_def Let_def)
  have "poc (projr ?r) = pp" by (simp add: profile_of_distribution_def mx va Let_def)
  moreover have "vah (projr ?r) = h" by (simp add: profile_of_distribution_def mx va Let_def)
  moreover have "val (projr ?r) = lo" by (simp add: profile_of_distribution_def mx va Let_def)
  moreover have "value_area_volume (projr ?r) = va"
    by (simp add: profile_of_distribution_def mx va Let_def)
  moreover have "volume_by_price (projr ?r) = vbp"
    by (simp add: profile_of_distribution_def mx va Let_def)
  moreover have "total_volume (projr ?r) = sum_list (map snd vbp)"
    by (simp add: profile_of_distribution_def mx va Let_def)
  moreover have "price_levels (projr ?r) = lv"
    by (simp add: profile_of_distribution_def mx va Let_def)
  moreover have "profile_low (projr ?r) = Min (set (map ltp ticks))"
    by (simp add: profile_of_distribution_def mx va Let_def)
  moreover have "profile_high (projr ?r) = Max (set (map ltp ticks))"
    by (simp add: profile_of_distribution_def mx va Let_def)
  ultimately show ?thesis using mx va sel by simp
qed

lemma build_profile_InrD:
  assumes "build_profile n pct symb st en now all_ticks = Inr vp"
  shows "\<exists>lv. 10 \<le> length (filter_ticks st en all_ticks) \<and>
     (\<exists>vbp. volume_distribution n (filter_ticks st en all_ticks) = Inr (lv, vbp) \<and>
       profile_of_distribution pct symb now (filter_ticks st en all_ticks) lv vbp = Inr vp)"
proof -
  let ?w = "filter_ticks st en all_ticks"
  have len: "10 \<le> length ?w" using assms
    by (simp add: build_profile_def Let_def split: if_splits)
  then have eq: "build_profile n pct symb st en now all_ticks =
      (case volume_distribution n ?w of Inl e \<Rightarrow> Inl e
       | Inr (levels, vbp) \<Rightarrow> profile_of_distribution pct symb now ?w levels vbp)"
    using assms by (simp add: build_profile_def Let_def split: if_splits)
  show ?thesis
  proof (cases "volume_distribution n ?w")
    case (Inl e)
    then show ?thesis using assms eq by simp
  next
    case (Inr p)
    obtain lv vbp where p: "p = (lv, vbp)" by (cases p)
    show ?thesis using assms eq Inr p len by simp
  qed
qed

lemma build_profile_facts:
  assumes "build_profile n pct symb st en now all_ticks = Inr vp"
  shows "distinct (map fst (volume_by_price vp))"
    and "total_volume vp = sum_list (map snd (volume_by_price vp))"
    and "total_volume vp = sum_list (map volume (filter_ticks st en all_ticks))"
    and "\<exists>pv. py_max_by_value (volume_by_price vp) = Inr (poc vp, pv)"
    and "calculate_value_area pct (volume_by_price vp) (poc vp) (total_volume vp)
           = Inr (vah vp, val vp, value_area_volume vp)"
    and "\<forall>t\<in>set (filter_ticks st en all_ticks). 0 \<le> volume t
           \<Longrightarrow> \<forall>x\<in>set (volume_by_price vp). 0 \<le> snd x"
    and "\<exists>bps. map (\<lambda>t. bucket_price_of n (profile_low vp)
                        ((profile_high vp - profile_low vp) / real_of_int n) (price_levels vp) (ltp t))
                    (filter_ticks st en all_ticks) = map Inr bps \<and>
                map fst (volume_by_price vp) = first_seen bps"
proof -
  let ?w = "filter_ticks st en all_ticks"
  from build_profile_InrD [OF assms] obtain lv vbp where
    vd: "volume_distribution n ?w = Inr (lv, vbp)"
    and pd: "profile_of_distribution pct symb now ?w lv vbp = Inr vp" by blast
  define pm where "pm = Min (set (map ltp ?w))"
  define bs where "bs = (Max (set (map ltp ?w)) - Min (set (map ltp ?w))) / real_of_int n"
  from volume_distribution_InrD [OF vd] have
    acc0: "accumulate_volume n pm bs lv [] (zip (map ltp ?w) (map volume ?w)) = Inr vbp"
    unfolding pm_def bs_def by (rule conjunct2)
  from profile_of_distribution_InrD [OF pd] obtain pv where
    mx: "py_max_by_value vbp = Inr (poc vp, pv)"
    and va0: "calculate_value_area pct vbp (poc vp) (sum_list (map snd vbp))
       = Inr (vah vp, val vp, value_area_volume vp)"
    and eq: "volume_by_price vp = vbp"
    and tv0: "total_volume vp = sum_list (map snd vbp)"
    and lv: "price_levels vp = lv"
    and lo: "profile_low vp = Min (set (map ltp ?w))"
    and hi: "profile_high vp = Max (set (map ltp ?w))" by blast
  have acc: "accumulate_volume n pm bs lv [] (zip (map ltp ?w) (map volume ?w)) = Inr (volume_by_price vp)"
    using acc0 eq by simp
  have tv: "total_volume vp = sum_list (map snd (volume_by_price vp))" using tv0 eq by simp
  show "distinct (map fst (volume_by_price vp))"
    using accumulate_volume_distinct [OF acc] by simp
  show "total_volume vp = sum_list (map snd (volume_by_price vp))" by (rule tv)
  have "map snd (zip (map ltp ?w) (map volume ?w)) = map volume ?w" by simp
  then show "total_volume vp = sum_list (map volume ?w)"
    using accumulate_volume_sum [OF acc] tv by simp
  show "\<exists>pv. py_max_by_value (volume_by_price vp) = Inr (poc vp, pv)" using mx eq by blast
  show "calculate_value_area pct (volume_by_price vp) (poc vp) (total_volume vp)
           = Inr (vah vp, val vp, value_area_volume vp)" using va0 tv0 eq by simp
  show "\<forall>x\<in>set (volume_by_price vp). 0 \<le> snd x"
    if "\<forall>t\<in>set ?w. 0 \<le> volume t"
  proof -
    have "\<forall>x\<in>set (zip (map ltp ?w) (map volume ?w)). 0 \<le> snd x"
      using that by (auto simp: set_zip)
    then show ?thesis using accumulate_volume_nonneg [OF acc] by simp
  qed
  from accumulate_volume_keys [OF acc] obtain bps where
    m: "map (bucket_price_of n pm bs lv) (map fst (zip (map ltp ?w) (map volume ?w))) = map Inr bps"
    and k: "map fst (volume_by_price vp) = first_seen bps" by auto
  have "map fst (zip (map ltp ?w) (map volume ?w)) = map ltp ?w" by simp
  then have "map (\<lambda>t. bucket_price_of n pm bs lv (ltp t)) ?w = map Inr bps"
    using m by (simp add: comp_def)
  then have "map (\<lambda>t. bucket_price_of n (profile_low vp)
                        ((profile_high vp - profile_low vp) / real_of_int n) (price_levels vp) (ltp t)) ?w
        = map Inr bps"
    by (simp only: pm_def bs_def lv lo hi)
  then show "\<exists>bps. map (\<lambda>t. bucket_price_of n (profile_low vp)
                        ((profile_high vp - profile_low vp) / real_of_int n) (price_levels vp) (ltp t))
                    ?w = map Inr bps \<and>
                map fst (volume_by_price vp) = first_seen bps"
    using k by blast
qed

lemma calculate_volume_profile_SomeD:
  "calculate_volume_profile c symb st en now = (Some vp, c') \<Longrightarrow>
     build_profile (num_price_levels c) (value_area_pct c) symb st en now
       (case tick_data c symb of Some ts \<Rightarrow> ts | None \<Rightarrow> []) = Inr vp
     \<and> c' = c\<lparr>calculated_profiles := (calculated_profiles c)(symb \<mapsto> vp)\<rparr>"
  by (auto simp: calculate_volume_profile_def split: sum.splits)

lemma py_index_sorted_keys:
  assumes "p \<in> set (map fst vbp)"
  shows "\<exists>i. py_index (sort (map fst vbp)) p = Inr i"
proof -
  have "p \<in> set (sort (map fst vbp))" using assms by simp
  then show ?thesis by (rule py_index_mem)
qed

lemma calculate_value_area_eq:
  assumes i: "py_index (sort (map fst vbp)) p = Inr i"
    and e: "expand_value_area vbp (sort (map fst vbp)) (real_of_int tot * (pct / 100)) i i
              (dict_get vbp p) = (u, l, a)"
  shows "calculate_value_area pct vbp p tot =
           Inr (sort (map fst vbp) ! u, sort (map fst vbp) ! l, a)"
  by (simp only: calculate_value_area_def Let_def i e sum.case prod.case)

lemma calculate_value_area_InrD:
  assumes "calculate_value_area pct vbp p tot = Inr (h, lo, va)" and "p \<in> set (map fst vbp)"
  shows "\<exists>i u l. py_index (sort (map fst vbp)) p = Inr i \<and>
     expand_value_area vbp (sort (map fst vbp)) (real_of_int tot * (pct / 100)) i i (dict_get vbp p)
       = (u, l, va) \<and> h = sort (map fst vbp) ! u \<and> lo = sort (map fst vbp) ! l"
proof -
  from py_index_sorted_keys [OF assms(2)] obtain i where
    i: "py_index (sort (map fst vbp)) p = Inr i" ..
  obtain u l a where e:
    "expand_value_area vbp (sort (map fst vbp)) (real_of_int tot * (pct / 100)) i i
       (dict_get vbp p) = (u, l, a)"
    using prod_cases3 by blast
  have r: "Inr (h, lo, va) =
      (Inr (sort (map fst vbp) ! u, sort (map fst vbp) ! l, a) :: error + (real \<times> real \<times> int))"
    using calculate_value_area_eq [OF i e] assms(1) by (simp only:)
  have "h = sort (map fst vbp) ! u \<and> lo = sort (map fst vbp) ! l \<and> va = a"
    using r by (simp only: sum.inject prod.inject)
  then show ?thesis using i e by blast
qed

lemma py_max_by_value_mem: "py_max_by_value items = Inr (k, v) \<Longrightarrow> (k, v) \<in> set items"
  using py_max_by_value_first [of items k v] by auto

lemma value_area_core:
  assumes "build_profile n pct symb st en now all_ticks = Inr vp"
  shows "\<exists>i u l. py_index (sort (map fst (volume_by_price vp))) (poc vp) = Inr i \<and>
     expand_value_area (volume_by_price vp) (sort (map fst (volume_by_price vp)))
       (real_of_int (total_volume vp) * (pct / 100)) i i (dict_get (volume_by_price vp) (poc vp))
       = (u, l, value_area_volume vp) \<and>
     vah vp = sort (map fst (volume_by_price vp)) ! u \<and>
     val vp = sort (map fst (volume_by_price vp)) ! l \<and>
     poc vp = sort (map fst (volume_by_price vp)) ! i \<and>
     l \<le> i \<and> i \<le> u \<and> u < length (sort (map fst (volume_by_price vp))) \<and>
     value_area_volume vp =
       (\<Sum>j = l..u. dict_get (volume_by_price vp) (sort (map fst (volume_by_price vp)) ! j))"
proof -
  let ?vbp = "volume_by_price vp"
  let ?sp = "sort (map fst ?vbp)"
  from build_profile_facts(4) [OF assms] obtain pv where
    mx: "py_max_by_value ?vbp = Inr (poc vp, pv)" ..
  have "(poc vp, pv) \<in> set ?vbp" using mx by (rule py_max_by_value_mem)
  then have mem: "poc vp \<in> set (map fst ?vbp)" by force
  from calculate_value_area_InrD [OF build_profile_facts(5) [OF assms] mem]
  obtain i u l where i: "py_index ?sp (poc vp) = Inr i"
    and e: "expand_value_area ?vbp ?sp (real_of_int (total_volume vp) * (pct / 100)) i i
              (dict_get ?vbp (poc vp)) = (u, l, value_area_volume vp)"
    and h: "vah vp = ?sp ! u" and lo: "val vp = ?sp ! l" by blast
  from py_index_Inr [OF i] have il: "i < length ?sp" and ip: "?sp ! i = poc vp" by simp_all
  have init: "dict_get ?vbp (poc vp) = (\<Sum>j = i..i. dict_get ?vbp (?sp ! j))"
    using ip by simp
  from expand_value_area_inv [OF e le_refl il init]
  have "l \<le> i \<and> i \<le> u \<and> u < length ?sp \<and>
        value_area_volume vp = (\<Sum>j = l..u. dict_get ?vbp (?sp ! j))" .
  then show ?thesis using i e h lo ip by auto
qed

text \<open>
  Claim C4. Every profile that \<open>calculate_volume_profile\<close> returns has
  \<open>val \<le> poc \<le> vah\<close>, and the volumes of its buckets add up to its
  \<open>total_volume\<close>, which is the volume of all ticks of the window.
\<close>

theorem profile_levels_ordered_and_volume_conserved:
  assumes "calculate_volume_profile c symb st en now = (Some vp, c')"
  shows "val vp \<le> poc vp \<and> poc vp \<le> vah vp \<and>
         sum_list (map snd (volume_by_price vp)) = total_volume vp \<and>
         total_volume vp = sum_list (map volume (tick_window c symb st en))"
proof -
  let ?sp = "sort (map fst (volume_by_price vp))"
  from calculate_volume_profile_SomeD [OF assms]
  have b: "build_profile (num_price_levels c) (value_area_pct c) symb st en now
       (case tick_data c symb of Some ts \<Rightarrow> ts | None \<Rightarrow> []) = Inr vp" by simp
  from value_area_core [OF b] obtain i u l where
    h: "vah vp = ?sp ! u" and lo: "val vp = ?sp ! l" and p: "poc vp = ?sp ! i"
    and ord: "l \<le> i" "i \<le> u" "u < length ?sp" by blast
  have "sorted ?sp" by simp
  then have "?sp ! l \<le> ?sp ! i" "?sp ! i \<le> ?sp ! u"
    using ord by (auto intro: sorted_nth_mono)
  then show ?thesis
    using h lo p build_profile_facts(2,3) [OF b] by (simp add: tick_window_def)
qed


theorem profile_levels_ordered_and_volume_conserved_witness:
  "fst (calculate_volume_profile tie_calculator ''S'' None None 100) \<noteq> None \<and>
   val (the (fst (calculate_volume_profile tie_calculator ''S'' None None 100)))
     \<le> poc (the (fst (calculate_volume_profile tie_calculator ''S'' None None 100))) \<and>
   poc (the (fst (calculate_volume_profile tie_calculator ''S'' None None 100)))
     \<le> vah (the (fst (calculate_volume_profile tie_calculator ''S'' None None 100))) \<and>
   sum_list (map snd (volume_by_price (the (fst (calculate_volume_profile tie_calculator ''S'' None None 100)))))
     = total_volume (the (fst (calculate_volume_profile tie_calculator ''S'' None None 100)))"
proof -
  have ne: "fst (calculate_volume_profile tie_calculator ''S'' None None 100) \<noteq> None"
    by code_simp
  then have h: "calculate_volume_profile tie_calculator ''S'' None None 100 =
      (Some (the (fst (calculate_volume_profile tie_calculator ''S'' None None 100))),
       snd (calculate_volume_profile tie_calculator ''S'' None None 100))"
    by (cases "calculate_volume_profile tie_calculator ''S'' None None 100") auto
  show ?thesis using ne profile_levels_ordered_and_volume_conserved [OF h] by blast
qed

lemma value_area_reaches_target:
  assumes b: "build_profile n pct symb st en now all_ticks = Inr vp"
    and nn: "\<forall>t\<in>set (filter_ticks st en all_ticks). 0 \<le> volume t"
  shows "\<exists>i u l. py_index (sort (map fst (volume_by_price vp))) (poc vp) = Inr i \<and>
     expand_value_area (volume_by_price vp) (sort (map fst (volume_by_price vp)))
       (real_of_int (total_volume vp) * (pct / 100)) i i (dict_get (volume_by_price vp) (poc vp))
       = (u, l, value_area_volume vp) \<and>
     vah vp = sort (map fst (volume_by_price vp)) ! u \<and>
     val vp = sort (map fst (volume_by_price vp)) ! l \<and>
     (real_of_int (total_volume vp) * (pct / 100) \<le> real_of_int (value_area_volume vp) \<or>
      (l = 0 \<and> u = length (volume_by_price vp) - 1 \<and> value_area_volume vp = total_volume vp))"
proof -
  let ?vbp = "volume_by_price vp"
  let ?sp = "sort (map fst ?vbp)"
  let ?t = "real_of_int (total_volume vp) * (pct / 100)"
  from value_area_core [OF b] obtain i u l where
    i: "py_index ?sp (poc vp) = Inr i"
    and e: "expand_value_area ?vbp ?sp ?t i i (dict_get ?vbp (poc vp)) = (u, l, value_area_volume vp)"
    and h: "vah vp = ?sp ! u" and lo: "val vp = ?sp ! l"
    and ul: "u < length ?sp"
    and s: "value_area_volume vp = (\<Sum>j = l..u. dict_get ?vbp (?sp ! j))" by blast
  have nonneg: "\<forall>k. 0 \<le> dict_get ?vbp k"
    using build_profile_facts(6) [OF b nn] by (simp add: dict_get_nonneg)
  from expand_value_area_stop [OF e nonneg]
  have stop: "?t \<le> real_of_int (value_area_volume vp) \<or> (l = 0 \<and> length ?sp \<le> u + 1)" .
  have full: "value_area_volume vp = total_volume vp \<and> u = length ?vbp - 1"
    if "l = 0" "length ?sp \<le> u + 1"
  proof -
    have u: "u = length ?sp - 1" using that ul by simp
    have ne: "?sp \<noteq> []"
    proof
      assume "?sp = []"
      then have "length ?sp = 0" by (simp only: list.size)
      then show False using ul by simp
    qed
    have "value_area_volume vp = sum_list (map (dict_get ?vbp) ?sp)"
      using s that(1) u sum_all_positions [OF ne, of "dict_get ?vbp"] by simp
    also have "\<dots> = sum_list (map snd ?vbp)"
      using sorted_keys_total [OF build_profile_facts(1) [OF b]] .
    finally show ?thesis using build_profile_facts(2) [OF b] u by simp
  qed
  show ?thesis using i e h lo stop full by blast
qed

lemma build_of_calculate:
  "calculate_volume_profile c symb st en now = (Some vp, c') \<Longrightarrow>
     build_profile (num_price_levels c) (value_area_pct c) symb st en now
       (case tick_data c symb of Some ts \<Rightarrow> ts | None \<Rightarrow> []) = Inr vp"
  using calculate_volume_profile_SomeD by blast

text \<open>
  Claim C1, as amended. In every profile that \<open>calculate_volume_profile\<close> returns, the
  POC is a bucket of maximum accumulated volume, and among the buckets that tie for the
  maximum it is the one that comes first in the volume dictionary: every bucket before
  it has strictly less volume, none after it has more. The buckets stand in the
  dictionary in the order in which they first receive a tick of the window.
\<close>

theorem poc_is_first_maximal_bucket:
  assumes "calculate_volume_profile c symb st en now = (Some vp, c')"
  shows "distinct (map fst (volume_by_price vp)) \<and>
    (\<exists>before pv after. volume_by_price vp = before @ (poc vp, pv) # after \<and>
       (\<forall>b\<in>set before. snd b < pv) \<and> (\<forall>b\<in>set after. snd b \<le> pv)) \<and>
    (\<exists>bps. map (\<lambda>t. bucket_price_of (num_price_levels c) (profile_low vp)
                      ((profile_high vp - profile_low vp) / real_of_int (num_price_levels c))
                      (price_levels vp) (ltp t))
                (tick_window c symb st en) = map Inr bps \<and>
            map fst (volume_by_price vp) = first_seen bps)"
proof -
  note b = build_of_calculate [OF assms]
  from build_profile_facts(4) [OF b] obtain pv where
    "py_max_by_value (volume_by_price vp) = Inr (poc vp, pv)" ..
  from py_max_by_value_first [OF this] have
    "\<exists>before pv after. volume_by_price vp = before @ (poc vp, pv) # after \<and>
       (\<forall>b\<in>set before. snd b < pv) \<and> (\<forall>b\<in>set after. snd b \<le> pv)" by blast
  then show ?thesis
    using build_profile_facts(1) [OF b] build_profile_facts(7) [OF b]
    by (simp only: tick_window_def simp_thms)
qed

theorem poc_is_first_maximal_bucket_witness:
  "fst (calculate_volume_profile tie_calculator ''S'' None None 100) \<noteq> None \<and>
   (\<exists>before pv after.
      volume_by_price (the (fst (calculate_volume_profile tie_calculator ''S'' None None 100)))
        = before @ (poc (the (fst (calculate_volume_profile tie_calculator ''S'' None None 100))), pv) # after \<and>
      (\<forall>b\<in>set before. snd b < pv) \<and> (\<forall>b\<in>set after. snd b \<le> pv))"
proof -
  have ne: "fst (calculate_volume_profile tie_calculator ''S'' None None 100) \<noteq> None"
    by code_simp
  then have h: "calculate_volume_profile tie_calculator ''S'' None None 100 =
      (Some (the (fst (calculate_volume_profile tie_calculator ''S'' None None 100))),
       snd (calculate_volume_profile tie_calculator ''S'' None None 100))"
    by (cases "calculate_volume_profile tie_calculator ''S'' None None 100") auto
  show ?thesis using ne poc_is_first_maximal_bucket [OF h] by blast
qed

text \<open>
  Claim C1 as stated fails. One tick at price 12 with volume 9 followed by nine ticks
  at price 10 with volume 1 each, in two buckets: the buckets keyed 11 and 10 both hold
  volume 9, the POC is 11, and the lowest-priced bucket of maximum volume is 10.
\<close>

theorem poc_lowest_price_tiebreak_counterexample:
  "map_option volume_by_price (fst (calculate_volume_profile tie_calculator ''S'' None None 100))
     = Some [(11, 9), (10, 9)] \<and>
   map_option poc (fst (calculate_volume_profile tie_calculator ''S'' None None 100)) = Some 11 \<and>
   map_option (spec_poc \<circ> volume_by_price)
     (fst (calculate_volume_profile tie_calculator ''S'' None None 100)) = Some 10"
  by code_simp

lemma value_area_expansion_parts:
  assumes ok: "calculate_volume_profile c symb st en now = (Some vp, c')"
    and nn: "\<forall>t\<in>set (tick_window c symb st en). 0 \<le> volume t"
  shows "\<exists>i u l.
     py_index (sort (map fst (volume_by_price vp))) (poc vp) = Inr i \<and>
     expand_value_area (volume_by_price vp) (sort (map fst (volume_by_price vp)))
       (real_of_int (total_volume vp) * (value_area_pct c / 100)) i i
       (dict_get (volume_by_price vp) (poc vp)) = (u, l, value_area_volume vp) \<and>
     vah vp = sort (map fst (volume_by_price vp)) ! u \<and>
     val vp = sort (map fst (volume_by_price vp)) ! l \<and>
     (real_of_int (total_volume vp) * (value_area_pct c / 100) \<le> real_of_int (value_area_volume vp) \<or>
      (l = 0 \<and> u = length (volume_by_price vp) - 1 \<and> value_area_volume vp = total_volume vp))"
    and "\<forall>sp t u l a. \<not> real_of_int a < t \<longrightarrow>
           expand_value_area (volume_by_price vp) sp t u l a = (u, l, a)"
    and "\<forall>sp t u l a. real_of_int a < t \<and> u + 1 < length sp \<and> 0 < l \<longrightarrow>
           expand_value_area (volume_by_price vp) sp t u l a =
             (if dict_get (volume_by_price vp) (sp ! (l - 1)) \<le> dict_get (volume_by_price vp) (sp ! (u + 1))
              then expand_value_area (volume_by_price vp) sp t (u + 1) l
                     (a + dict_get (volume_by_price vp) (sp ! (u + 1)))
              else expand_value_area (volume_by_price vp) sp t u (l - 1)
                     (a + dict_get (volume_by_price vp) (sp ! (l - 1))))"
    and "\<forall>sp t u a. real_of_int a < t \<and> u + 1 < length sp \<longrightarrow>
           expand_value_area (volume_by_price vp) sp t u 0 a =
             expand_value_area (volume_by_price vp) sp t (u + 1) 0
               (a + dict_get (volume_by_price vp) (sp ! (u + 1)))"
    and "\<forall>sp t u l a. real_of_int a < t \<and> \<not> u + 1 < length sp \<and> 0 < l \<longrightarrow>
           expand_value_area (volume_by_price vp) sp t u l a =
             expand_value_area (volume_by_price vp) sp t u (l - 1)
               (a + dict_get (volume_by_price vp) (sp ! (l - 1)))"
    and "\<forall>sp t u a. real_of_int a < t \<and> \<not> u + 1 < length sp \<longrightarrow>
           expand_value_area (volume_by_price vp) sp t u 0 a = (u, 0, a)"
proof -
  note b = build_of_calculate [OF ok]
  have nn': "\<forall>t\<in>set (filter_ticks st en (case tick_data c symb of Some ts \<Rightarrow> ts | None \<Rightarrow> [])).
               0 \<le> volume t"
    using nn by (simp add: tick_window_def)
  show "\<exists>i u l.
     py_index (sort (map fst (volume_by_price vp))) (poc vp) = Inr i \<and>
     expand_value_area (volume_by_price vp) (sort (map fst (volume_by_price vp)))
       (real_of_int (total_volume vp) * (value_area_pct c / 100)) i i
       (dict_get (volume_by_price vp) (poc vp)) = (u, l, value_area_volume vp) \<and>
     vah vp = sort (map fst (volume_by_price vp)) ! u \<and>
     val vp = sort (map fst (volume_by_price vp)) ! l \<and>
     (real_of_int (total_volume vp) * (value_area_pct c / 100) \<le> real_of_int (value_area_volume vp) \<or>
      (l = 0 \<and> u = length (volume_by_price vp) - 1 \<and> value_area_volume vp = total_volume vp))"
    by (rule value_area_reaches_target [OF b nn'])
  have nonneg: "\<And>k. 0 \<le> dict_get (volume_by_price vp) k"
    using build_profile_facts(6) [OF b nn'] by (simp add: dict_get_nonneg)
  show "\<forall>sp t u l a. \<not> real_of_int a < t \<longrightarrow>
           expand_value_area (volume_by_price vp) sp t u l a = (u, l, a)"
    by (simp add: expand_halt)
  show "\<forall>sp t u l a. real_of_int a < t \<and> u + 1 < length sp \<and> 0 < l \<longrightarrow>
           expand_value_area (volume_by_price vp) sp t u l a =
             (if dict_get (volume_by_price vp) (sp ! (l - 1)) \<le> dict_get (volume_by_price vp) (sp ! (u + 1))
              then expand_value_area (volume_by_price vp) sp t (u + 1) l
                     (a + dict_get (volume_by_price vp) (sp ! (u + 1)))
              else expand_value_area (volume_by_price vp) sp t u (l - 1)
                     (a + dict_get (volume_by_price vp) (sp ! (l - 1))))"
  proof (intro allI impI)
    fix sp :: "real list" and t :: real and u l :: nat and a :: int
    assume h: "real_of_int a < t \<and> u + 1 < length sp \<and> 0 < l"
    show "expand_value_area (volume_by_price vp) sp t u l a =
             (if dict_get (volume_by_price vp) (sp ! (l - 1)) \<le> dict_get (volume_by_price vp) (sp ! (u + 1))
              then expand_value_area (volume_by_price vp) sp t (u + 1) l
                     (a + dict_get (volume_by_price vp) (sp ! (u + 1)))
              else expand_value_area (volume_by_price vp) sp t u (l - 1)
                     (a + dict_get (volume_by_price vp) (sp ! (l - 1))))"
    proof (cases "dict_get (volume_by_price vp) (sp ! (l - 1)) \<le> dict_get (volume_by_price vp) (sp ! (u + 1))")
      case True
      have "int u < int (length sp) - 1" using h by linarith
      then show ?thesis using True h expand_up [of a t u sp l "volume_by_price vp"] by simp
    next
      case False
      then show ?thesis using h expand_down [of a t l u sp "volume_by_price vp"] by simp
    qed
  qed
  show "\<forall>sp t u a. real_of_int a < t \<and> u + 1 < length sp \<longrightarrow>
           expand_value_area (volume_by_price vp) sp t u 0 a =
             expand_value_area (volume_by_price vp) sp t (u + 1) 0
               (a + dict_get (volume_by_price vp) (sp ! (u + 1)))"
  proof (intro allI impI)
    fix sp :: "real list" and t :: real and u :: nat and a :: int
    assume h: "real_of_int a < t \<and> u + 1 < length sp"
    have "int u < int (length sp) - 1" using h by linarith
    then show "expand_value_area (volume_by_price vp) sp t u 0 a =
             expand_value_area (volume_by_price vp) sp t (u + 1) 0
               (a + dict_get (volume_by_price vp) (sp ! (u + 1)))"
      using h nonneg expand_up [of a t u sp 0 "volume_by_price vp"] by simp
  qed
  show "\<forall>sp t u l a. real_of_int a < t \<and> \<not> u + 1 < length sp \<and> 0 < l \<longrightarrow>
           expand_value_area (volume_by_price vp) sp t u l a =
             expand_value_area (volume_by_price vp) sp t u (l - 1)
               (a + dict_get (volume_by_price vp) (sp ! (l - 1)))"
  proof (intro allI impI)
    fix sp :: "real list" and t :: real and u l :: nat and a :: int
    assume h: "real_of_int a < t \<and> \<not> u + 1 < length sp \<and> 0 < l"
    have "\<not> int u < int (length sp) - 1" using h by linarith
    then show "expand_value_area (volume_by_price vp) sp t u l a =
             expand_value_area (volume_by_price vp) sp t u (l - 1)
               (a + dict_get (volume_by_price vp) (sp ! (l - 1)))"
      using h expand_down [of a t l u sp "volume_by_price vp"] by simp
  qed
  show "\<forall>sp t u a. real_of_int a < t \<and> \<not> u + 1 < length sp \<longrightarrow>
           expand_value_area (volume_by_price vp) sp t u 0 a = (u, 0, a)"
  proof (intro allI impI)
    fix sp :: "real list" and t :: real and u :: nat and a :: int
    assume h: "real_of_int a < t \<and> \<not> u + 1 < length sp"
    have "\<not> int u < int (length sp) - 1" using h by linarith
    then show "expand_value_area (volume_by_price vp) sp t u 0 a = (u, 0, a)"
      using h expand_break [of a t 0 u sp "volume_by_price vp"] by simp
  qed
qed


text \<open>
  Claim C3, as amended. In every profile built from a window of ticks with non-negative volumes, the
  value area is the result of the expansion loop started with both pointers at the
  position of the POC in the ascending list of bucket prices and with the POC's volume
  accumulated. The loop stops as soon as the accumulated volume is not below
  \<open>value_area_pct\<close> percent of the total; below it, with both neighbours present, it
  takes the upper neighbour when its volume is at least the lower neighbour's (so upward
  on a tie) and the lower one otherwise; with one neighbour present it takes that one;
  with none it stops. Hence \<open>value_area_volume\<close> is at least \<open>value_area_pct\<close>
  percent of \<open>total_volume\<close>, or the pointers span every bucket and it equals
  \<open>total_volume\<close>.
\<close>

theorem value_area_expansion:
  assumes ok: "calculate_volume_profile c symb st en now = (Some vp, c')"
    and nn: "\<forall>t\<in>set (tick_window c symb st en). 0 \<le> volume t"
  shows "(\<exists>i u l.
     py_index (sort (map fst (volume_by_price vp))) (poc vp) = Inr i \<and>
     expand_value_area (volume_by_price vp) (sort (map fst (volume_by_price vp)))
       (real_of_int (total_volume vp) * (value_area_pct c / 100)) i i
       (dict_get (volume_by_price vp) (poc vp)) = (u, l, value_area_volume vp) \<and>
     vah vp = sort (map fst (volume_by_price vp)) ! u \<and>
     val vp = sort (map fst (volume_by_price vp)) ! l \<and>
     (real_of_int (total_volume vp) * (value_area_pct c / 100) \<le> real_of_int (value_area_volume vp) \<or>
      (l = 0 \<and> u = length (volume_by_price vp) - 1 \<and> value_area_volume vp = total_volume vp))) \<and>
    (\<forall>sp t u l a. \<not> real_of_int a < t \<longrightarrow>
           expand_value_area (volume_by_price vp) sp t u l a = (u, l, a)) \<and>
    (\<forall>sp t u l a. real_of_int a < t \<and> u + 1 < length sp \<and> 0 < l \<longrightarrow>
           expand_value_area (volume_by_price vp) sp t u l a =
             (if dict_get (volume_by_price vp) (sp ! (l - 1)) \<le> dict_get (volume_by_price vp) (sp ! (u + 1))
              then expand_value_area (volume_by_price vp) sp t (u + 1) l
                     (a + dict_get (volume_by_price vp) (sp ! (u + 1)))
              else expand_value_area (volume_by_price vp) sp t u (l - 1)
                     (a + dict_get (volume_by_price vp) (sp ! (l - 1))))) \<and>
    (\<forall>sp t u a. real_of_int a < t \<and> u + 1 < length sp \<longrightarrow>
           expand_value_area (volume_by_price vp) sp t u 0 a =
             expand_value_area (volume_by_price vp) sp t (u + 1) 0
               (a + dict_get (volume_by_price vp) (sp ! (u + 1)))) \<and>
    (\<forall>sp t u l a. real_of_int a < t \<and> \<not> u + 1 < length sp \<and> 0 < l \<longrightarrow>
           expand_value_area (volume_by_price vp) sp t u l a =
             expand_value_area (volume_by_price vp) sp t u (l - 1)
               (a + dict_get (volume_by_price vp) (sp ! (l - 1)))) \<and>
    (\<forall>sp t u a. real_of_int a < t \<and> \<not> u + 1 < length sp \<longrightarrow>
           expand_value_area (volume_by_price vp) sp t u 0 a = (u, 0, a))"
  using value_area_expansion_parts [OF ok nn] by (intro conjI)

theorem value_area_expansion_witness:
  "fst (calculate_volume_profile tie_calculator ''S'' None None 100) \<noteq> None \<and>
   list_all (\<lambda>t. 0 \<le> volume t) (tick_window tie_calculator ''S'' None None) \<and>
   (real_of_int (total_volume (the (fst (calculate_volume_profile tie_calculator ''S'' None None 100))))
      * (value_area_pct tie_calculator / 100)
      \<le> real_of_int (value_area_volume (the (fst (calculate_volume_profile tie_calculator ''S'' None None 100))))
    \<or> value_area_volume (the (fst (calculate_volume_profile tie_calculator ''S'' None None 100)))
      = total_volume (the (fst (calculate_volume_profile tie_calculator ''S'' None None 100))))"
proof -
  have ne: "fst (calculate_volume_profile tie_calculator ''S'' None None 100) \<noteq> None"
    by code_simp
  then have h: "calculate_volume_profile tie_calculator ''S'' None None 100 =
      (Some (the (fst (calculate_volume_profile tie_calculator ''S'' None None 100))),
       snd (calculate_volume_profile tie_calculator ''S'' None None 100))"
    by (cases "calculate_volume_profile tie_calculator ''S'' None None 100") auto
  have la: "list_all (\<lambda>t. 0 \<le> volume t) (tick_window tie_calculator ''S'' None None)"
    by code_simp
  then have nn: "\<forall>t\<in>set (tick_window tie_calculator ''S'' None None). 0 \<le> volume t"
    by (simp only: list_all_iff)
  show ?thesis using ne la value_area_expansion [OF h nn] by blast
qed

text \<open>
  Claim C3 as stated fails, for it makes no condition on the volumes. In the window with
  one negative tick volume the buckets 10, 11 and 12 hold 10, -1 and 9, the total is 18
  and seventy percent of it is 12.6. The POC is the lowest bucket; its upper neighbour
  holds less than the zero that stands for the missing lower neighbour, so the loop
  stops at once: the value area is the POC bucket alone, its volume 10 is below 12.6
  and is not the total, and the bucket keyed 12 was never reached.
\<close>

theorem value_area_negative_volume_counterexample:
  "map_option volume_by_price
     (fst (calculate_volume_profile negative_volume_calculator ''S'' None None 100))
     = Some [(10, 10), (11, - 1), (12, 9)] \<and>
   map_option poc (fst (calculate_volume_profile negative_volume_calculator ''S'' None None 100))
     = Some 10 \<and>
   map_option vah (fst (calculate_volume_profile negative_volume_calculator ''S'' None None 100))
     = Some 10 \<and>
   map_option val (fst (calculate_volume_profile negative_volume_calculator ''S'' None None 100))
     = Some 10 \<and>
   map_option total_volume
     (fst (calculate_volume_profile negative_volume_calculator ''S'' None None 100)) = Some 18 \<and>
   map_option value_area_volume
     (fst (calculate_volume_profile negative_volume_calculator ''S'' None None 100)) = Some 10 \<and>
   real_of_int (value_area_volume
       (the (fst (calculate_volume_profile negative_volume_calculator ''S'' None None 100))))
     < real_of_int (total_volume
         (the (fst (calculate_volume_profile negative_volume_calculator ''S'' None None 100))))
       * (value_area_pct negative_volume_calculator / 100) \<and>
   value_area_volume
       (the (fst (calculate_volume_profile negative_volume_calculator ''S'' None None 100)))
     \<noteq> total_volume
       (the (fst (calculate_volume_profile negative_volume_calculator ''S'' None None 100)))"
  by code_simp









section \<open>Properties of the strategy\<close>

subsection \<open>Confidence\<close>

text \<open>
  Claim C10. The confidence score lies between 0 and 1, and it is a function of the
  volume ratio, the distance from the POC, the two node flags and the profile's POC
  strength alone: the strategy object, the other fields of the profile and the entry
  price do not enter it.
\<close>

theorem signal_confidence_bounded_and_pure:
  "0 \<le> calculate_signal_confidence s vp_data entry vr near_hvn near_lvn d \<and>
   calculate_signal_confidence s vp_data entry vr near_hvn near_lvn d \<le> 1 \<and>
   calculate_signal_confidence s' (vp'\<lparr>poc_strength := poc_strength vp_data\<rparr>) entry' vr near_hvn near_lvn d
     = calculate_signal_confidence s vp_data entry vr near_hvn near_lvn d"
  by (simp add: calculate_signal_confidence_def Let_def)

subsection \<open>Flags\<close>

lemma map_of_dict_set_same: "map_of (dict_set d k v) k = Some v"
  by (induction d k v rule: dict_set.induct) auto

lemma map_of_dict_set_other: "k' \<noteq> k \<Longrightarrow> map_of (dict_set d k v) k' = map_of d k'"
  by (induction d k v rule: dict_set.induct) auto

lemma length_dict_set_new: "map_of d k = None \<Longrightarrow> length (dict_set d k v) = Suc (length d)"
  by (induction d k v rule: dict_set.induct) (auto split: if_splits)

lemma dict_set_new_differs: "map_of d k = None \<Longrightarrow> dict_set d k v \<noteq> d"
  using length_dict_set_new [of d k v] by auto

lemma check_for_breakout_flagged:
  "map_of (breakout_detected s) symb \<noteq> None \<Longrightarrow> check_for_breakout s symb q = s"
  by (simp add: check_for_breakout_def check_for_breakout_body_def)

lemma check_for_breakout_change:
  assumes "breakout_detected (check_for_breakout s symb q) \<noteq> breakout_detected s"
  shows "map_of (breakout_detected (check_for_breakout s symb q)) symb \<noteq> None"
proof (cases "check_for_breakout_body s symb q")
  case (Inl e)
  then show ?thesis using assms by (simp add: check_for_breakout_def)
next
  case (Inr flags)
  then have f: "breakout_detected (check_for_breakout s symb q) = flags"
    by (simp add: check_for_breakout_def)
  have "flags = breakout_detected s \<or> (\<exists>v. flags = dict_set (breakout_detected s) symb v)"
    using Inr
    by (auto simp: check_for_breakout_body_def Let_def split: if_splits option.splits)
  then obtain v where "flags = dict_set (breakout_detected s) symb v" using assms f by auto
  then show ?thesis using f by (simp add: map_of_dict_set_same)
qed

lemma check_for_breakout_same:
  "breakout_detected (check_for_breakout s symb q) = breakout_detected s
     \<Longrightarrow> check_for_breakout s symb q = s"
  by (cases "check_for_breakout_body s symb q") (auto simp: check_for_breakout_def)

lemma check_ticks_flagged:
  "map_of (breakout_detected s) symb \<noteq> None \<Longrightarrow> check_ticks s symb qs = s"
  by (induction qs) (simp_all add: check_for_breakout_flagged)

lemma breakouts_recorded_flagged:
  "map_of (breakout_detected s) symb \<noteq> None \<Longrightarrow> breakouts_recorded s symb qs = 0"
  by (induction qs) (simp_all add: check_for_breakout_flagged)

lemma breakouts_recorded_le_one: "breakouts_recorded s symb qs \<le> 1"
proof (induction qs arbitrary: s)
  case Nil
  show ?case by simp
next
  case (Cons q qs)
  show ?case
  proof (cases "breakout_detected (check_for_breakout s symb q) = breakout_detected s")
    case True
    then show ?thesis using Cons [of "check_for_breakout s symb q"] by simp
  next
    case False
    from check_for_breakout_change [OF False]
    have "breakouts_recorded (check_for_breakout s symb q) symb qs = 0"
      by (rule breakouts_recorded_flagged)
    then show ?thesis using False by simp
  qed
qed

lemma check_for_breakout_upper:
  assumes "map_of (breakout_detected s) symb = None" and "volume_profiles s symb = Some vp"
    and "vah vp \<noteq> 0" and "ltp q > vah vp"
    and "(ltp q - vah vp) / vah vp * 100 \<ge> min_breakout_distance_pct (strategy_config s)"
  shows "check_for_breakout s symb q =
           s\<lparr>breakout_detected := dict_set (breakout_detected s) symb ''VAH''\<rparr>"
  using assms by (simp add: check_for_breakout_def check_for_breakout_body_def Let_def)

text \<open>
  Claim C6. Over any run of ticks of an instrument through \<open>check_for_breakout\<close> the
  dictionary of flags changes at one tick at most. Once the instrument is flagged,
  further ticks change nothing. Two consecutive ticks that both exceed the upper
  threshold of the cached profile, on an instrument that is not flagged, record exactly
  one breakout: the upper one.
\<close>

theorem one_breakout_per_profile:
  "breakouts_recorded s symb qs \<le> 1 \<and>
   (map_of (breakout_detected s) symb \<noteq> None \<longrightarrow>
      check_ticks s symb qs = s \<and> breakouts_recorded s symb qs = 0) \<and>
   (map_of (breakout_detected s) symb = None \<and> volume_profiles s symb = Some vp \<and>
    vah vp \<noteq> 0 \<and>
    ltp q1 > vah vp \<and>
    (ltp q1 - vah vp) / vah vp * 100 \<ge> min_breakout_distance_pct (strategy_config s) \<and>
    ltp q2 > vah vp \<and>
    (ltp q2 - vah vp) / vah vp * 100 \<ge> min_breakout_distance_pct (strategy_config s) \<longrightarrow>
      breakouts_recorded s symb [q1, q2] = 1 \<and>
      breakout_detected (check_ticks s symb [q1, q2])
        = dict_set (breakout_detected s) symb ''VAH'')"
proof (intro conjI impI)
  show "breakouts_recorded s symb qs \<le> 1" by (rule breakouts_recorded_le_one)
next
  assume "map_of (breakout_detected s) symb \<noteq> None"
  then show "check_ticks s symb qs = s" by (rule check_ticks_flagged)
next
  assume "map_of (breakout_detected s) symb \<noteq> None"
  then show "breakouts_recorded s symb qs = 0" by (rule breakouts_recorded_flagged)
next
  assume h: "map_of (breakout_detected s) symb = None \<and> volume_profiles s symb = Some vp \<and>
    vah vp \<noteq> 0 \<and>
    ltp q1 > vah vp \<and>
    (ltp q1 - vah vp) / vah vp * 100 \<ge> min_breakout_distance_pct (strategy_config s) \<and>
    ltp q2 > vah vp \<and>
    (ltp q2 - vah vp) / vah vp * 100 \<ge> min_breakout_distance_pct (strategy_config s)"
  let ?s1 = "s\<lparr>breakout_detected := dict_set (breakout_detected s) symb ''VAH''\<rparr>"
  from h have h1: "map_of (breakout_detected s) symb = None"
    and h2: "volume_profiles s symb = Some vp" and h3: "vah vp \<noteq> 0"
    and h4: "ltp q1 > vah vp"
    and h5: "(ltp q1 - vah vp) / vah vp * 100 \<ge> min_breakout_distance_pct (strategy_config s)"
    by blast+
  have c1: "check_for_breakout s symb q1 = ?s1"
    by (rule check_for_breakout_upper [OF h1 h2 h3 h4 h5])
  have fl: "map_of (breakout_detected ?s1) symb \<noteq> None" by (simp add: map_of_dict_set_same)
  have c2: "check_for_breakout ?s1 symb q2 = ?s1"
    using fl by (rule check_for_breakout_flagged)
  have d: "dict_set (breakout_detected s) symb ''VAH'' \<noteq> breakout_detected s"
    by (rule dict_set_new_differs [OF h1])
  show "breakouts_recorded s symb [q1, q2] = 1" using c1 c2 d by simp
  show "breakout_detected (check_ticks s symb [q1, q2])
        = dict_set (breakout_detected s) symb ''VAH''" using c1 c2 by simp
qed

theorem one_breakout_per_profile_witness:
  "map_of (breakout_detected idle_strategy) ''S'' = None \<and>
   breakouts_recorded idle_strategy ''S'' [quote_at 106, quote_at 107] = 1 \<and>
   breakout_detected (check_ticks idle_strategy ''S'' [quote_at 106, quote_at 107])
     = dict_set (breakout_detected idle_strategy) ''S'' ''VAH'' \<and>
   map_of (breakout_detected pending_strategy) ''S'' = Some ''VAH'' \<and>
   check_ticks pending_strategy ''S'' [quote_at 106, quote_at 107] = pending_strategy \<and>
   breakouts_recorded pending_strategy ''S'' [quote_at 106, quote_at 107] = 0"
proof -
  have h: "map_of (breakout_detected idle_strategy) ''S'' = None \<and>
      volume_profiles idle_strategy ''S'' = Some example_profile \<and>
      vah example_profile \<noteq> 0 \<and>
      ltp (quote_at 106) > vah example_profile \<and>
      (ltp (quote_at 106) - vah example_profile) / vah example_profile * 100
        \<ge> min_breakout_distance_pct (strategy_config idle_strategy) \<and>
      ltp (quote_at 107) > vah example_profile \<and>
      (ltp (quote_at 107) - vah example_profile) / vah example_profile * 100
        \<ge> min_breakout_distance_pct (strategy_config idle_strategy)"
    by (simp add: idle_strategy_def example_profile_def quote_at_def default_config_def)
  have f: "map_of (breakout_detected pending_strategy) ''S'' = Some ''VAH''"
    by (simp add: pending_strategy_def idle_strategy_def)
  then have f': "map_of (breakout_detected pending_strategy) ''S'' \<noteq> None" by simp
  note a = one_breakout_per_profile [of idle_strategy "''S''" "[quote_at 106, quote_at 107]"
      example_profile "quote_at 106" "quote_at 107"]
  note b = one_breakout_per_profile [of pending_strategy "''S''" "[quote_at 106, quote_at 107]"
      example_profile "quote_at 106" "quote_at 107"]
  show ?thesis using h f f' a b by blast
qed

subsection \<open>Trailing stop\<close>

lemma fl_lt_trans: "fl_lt a b \<Longrightarrow> fl_lt b c \<Longrightarrow> fl_lt a c"
  by (cases a; cases b; cases c) auto

lemma fl_lt_irrefl: "\<not> fl_lt a a"
  by (cases a) auto

lemma fl_lt_asym: "fl_lt a b \<Longrightarrow> \<not> fl_lt b a"
  by (cases a; cases b) auto

lemma fl_lt_imp_le: "fl_lt a b \<Longrightarrow> fl_le a b"
  by (cases a; cases b) auto

lemma update_price_extremes_keeps:
  "signal_type (update_price_extremes p price) = signal_type p \<and>
   current_stop_loss (update_price_extremes p price) = current_stop_loss p"
  by (simp add: update_price_extremes_def)

lemma update_trailing_stop_type:
  "signal_type (update_trailing_stop cfg p price) = signal_type p"
  by (simp add: update_trailing_stop_def Let_def)

lemma update_trailing_stop_long:
  "signal_type p = LONG \<Longrightarrow>
     current_stop_loss (update_trailing_stop cfg p price) =
       (if fl_lt (current_stop_loss p) (Finite (highest_price p * (1 - trailing_stop_pct cfg / 100)))
        then Finite (highest_price p * (1 - trailing_stop_pct cfg / 100))
        else current_stop_loss p)"
  by (simp add: update_trailing_stop_def Let_def)

lemma update_trailing_stop_short:
  "signal_type p = SHORT \<Longrightarrow>
     current_stop_loss (update_trailing_stop cfg p price) =
       (if fl_lt (fl_scale (lowest_price p) (1 + trailing_stop_pct cfg / 100)) (current_stop_loss p)
        then fl_scale (lowest_price p) (1 + trailing_stop_pct cfg / 100)
        else current_stop_loss p)"
  by (simp add: update_trailing_stop_def Let_def)

lemma track_position_type: "signal_type (track_position cfg p price) = signal_type p"
  by (simp add: track_position_def Let_def update_trailing_stop_type update_price_extremes_keeps)

lemma track_position_long:
  assumes "signal_type p = LONG"
  shows "current_stop_loss (track_position cfg p price) = current_stop_loss p \<or>
         fl_lt (current_stop_loss p) (current_stop_loss (track_position cfg p price))"
proof -
  let ?p2 = "(update_price_extremes p price)\<lparr>unrealized_pnl :=
       (if signal_type (update_price_extremes p price) = LONG
        then (price - entry_price (update_price_extremes p price)) * real_of_int (quantity (update_price_extremes p price))
        else (entry_price (update_price_extremes p price) - price) * real_of_int \<bar>quantity (update_price_extremes p price)\<bar>)\<rparr>"
  have t: "signal_type ?p2 = LONG" and c: "current_stop_loss ?p2 = current_stop_loss p"
    using assms by (simp_all add: update_price_extremes_keeps)
  have r: "track_position cfg p price =
      (if enable_trailing_stops cfg then update_trailing_stop cfg ?p2 price else ?p2)"
    by (simp add: track_position_def Let_def)
  show ?thesis
  proof (cases "enable_trailing_stops cfg")
    case False
    then show ?thesis using r c by simp
  next
    case True
    then have "current_stop_loss (track_position cfg p price) =
       current_stop_loss (update_trailing_stop cfg ?p2 price)" using r by simp
    then show ?thesis using update_trailing_stop_long [OF t, of cfg price] c
      by (auto split: if_splits)
  qed
qed

lemma track_position_short:
  assumes "signal_type p = SHORT"
  shows "current_stop_loss (track_position cfg p price) = current_stop_loss p \<or>
         fl_lt (current_stop_loss (track_position cfg p price)) (current_stop_loss p)"
proof -
  let ?p2 = "(update_price_extremes p price)\<lparr>unrealized_pnl :=
       (if signal_type (update_price_extremes p price) = LONG
        then (price - entry_price (update_price_extremes p price)) * real_of_int (quantity (update_price_extremes p price))
        else (entry_price (update_price_extremes p price) - price) * real_of_int \<bar>quantity (update_price_extremes p price)\<bar>)\<rparr>"
  have t: "signal_type ?p2 = SHORT" and c: "current_stop_loss ?p2 = current_stop_loss p"
    using assms by (simp_all add: update_price_extremes_keeps)
  have r: "track_position cfg p price =
      (if enable_trailing_stops cfg then update_trailing_stop cfg ?p2 price else ?p2)"
    by (simp add: track_position_def Let_def)
  show ?thesis
  proof (cases "enable_trailing_stops cfg")
    case False
    then show ?thesis using r c by simp
  next
    case True
    then have "current_stop_loss (track_position cfg p price) =
       current_stop_loss (update_trailing_stop cfg ?p2 price)" using r by simp
    then show ?thesis using update_trailing_stop_short [OF t, of cfg price] c
      by (auto split: if_splits)
  qed
qed

lemma update_position_tracking_present:
  "map_of (positions s) symb = Some p \<Longrightarrow>
     map_of (positions (update_position_tracking s symb q)) symb
       = Some (track_position (strategy_config s) p (ltp q)) \<and>
     strategy_config (update_position_tracking s symb q) = strategy_config s"
  by (simp add: update_position_tracking_def map_of_dict_set_same)

lemma track_ticks_long:
  "map_of (positions s) symb = Some p \<Longrightarrow> signal_type p = LONG \<Longrightarrow>
     \<exists>p'. map_of (positions (track_ticks s symb qs)) symb = Some p' \<and> signal_type p' = LONG \<and>
       (current_stop_loss p' = current_stop_loss p \<or>
        fl_lt (current_stop_loss p) (current_stop_loss p'))"
proof (induction qs arbitrary: s p)
  case Nil
  then show ?case by simp
next
  case (Cons q qs)
  let ?p1 = "track_position (strategy_config s) p (ltp q)"
  let ?s1 = "update_position_tracking s symb q"
  have m: "map_of (positions ?s1) symb = Some ?p1"
    using update_position_tracking_present [OF Cons.prems(1)] by simp
  have t: "signal_type ?p1 = LONG" using Cons.prems(2) by (simp add: track_position_type)
  from Cons.IH [OF m t] obtain p' where
    p': "map_of (positions (track_ticks ?s1 symb qs)) symb = Some p'" "signal_type p' = LONG"
    and mono: "current_stop_loss p' = current_stop_loss ?p1 \<or>
        fl_lt (current_stop_loss ?p1) (current_stop_loss p')" by blast
  have "current_stop_loss p' = current_stop_loss p \<or> fl_lt (current_stop_loss p) (current_stop_loss p')"
    using mono track_position_long [OF Cons.prems(2), of "strategy_config s" "ltp q"]
    by (metis fl_lt_trans)
  then show ?case using p' by simp
qed

lemma track_ticks_short:
  "map_of (positions s) symb = Some p \<Longrightarrow> signal_type p = SHORT \<Longrightarrow>
     \<exists>p'. map_of (positions (track_ticks s symb qs)) symb = Some p' \<and> signal_type p' = SHORT \<and>
       (current_stop_loss p' = current_stop_loss p \<or>
        fl_lt (current_stop_loss p') (current_stop_loss p))"
proof (induction qs arbitrary: s p)
  case Nil
  then show ?case by simp
next
  case (Cons q qs)
  let ?p1 = "track_position (strategy_config s) p (ltp q)"
  let ?s1 = "update_position_tracking s symb q"
  have m: "map_of (positions ?s1) symb = Some ?p1"
    using update_position_tracking_present [OF Cons.prems(1)] by simp
  have t: "signal_type ?p1 = SHORT" using Cons.prems(2) by (simp add: track_position_type)
  from Cons.IH [OF m t] obtain p' where
    p': "map_of (positions (track_ticks ?s1 symb qs)) symb = Some p'" "signal_type p' = SHORT"
    and mono: "current_stop_loss p' = current_stop_loss ?p1 \<or>
        fl_lt (current_stop_loss p') (current_stop_loss ?p1)" by blast
  have "current_stop_loss p' = current_stop_loss p \<or> fl_lt (current_stop_loss p') (current_stop_loss p)"
    using mono track_position_short [OF Cons.prems(2), of "strategy_config s" "ltp q"]
    by (metis fl_lt_trans)
  then show ?case using p' by simp
qed

text \<open>
  Claim C8. For a long position \<open>update_trailing_stop\<close> adopts the candidate
  \<open>highest_price * (1 - trailing_stop_pct / 100)\<close> exactly when the current stop is
  below it, and for a short position it adopts \<open>lowest_price * (1 + trailing_stop_pct / 100)\<close>
  exactly when that is below the current stop. Over any run of ticks through
  \<open>update_position_tracking\<close> the position stays open with its direction, and the
  current stop of a long position at the end is the one at the start or a higher one,
  that of a short position the one at the start or a lower one.
\<close>

theorem trailing_stop_never_loosens:
  "(signal_type p = LONG \<longrightarrow>
      current_stop_loss (update_trailing_stop cfg p price) =
        (if fl_lt (current_stop_loss p) (Finite (highest_price p * (1 - trailing_stop_pct cfg / 100)))
         then Finite (highest_price p * (1 - trailing_stop_pct cfg / 100))
         else current_stop_loss p)) \<and>
   (signal_type p = SHORT \<longrightarrow>
      current_stop_loss (update_trailing_stop cfg p price) =
        (if fl_lt (fl_scale (lowest_price p) (1 + trailing_stop_pct cfg / 100)) (current_stop_loss p)
         then fl_scale (lowest_price p) (1 + trailing_stop_pct cfg / 100)
         else current_stop_loss p)) \<and>
   (map_of (positions s) symb = Some p \<and> signal_type p = LONG \<longrightarrow>
      (\<exists>p'. map_of (positions (track_ticks s symb qs)) symb = Some p' \<and> signal_type p' = LONG \<and>
         (current_stop_loss p' = current_stop_loss p \<or>
          fl_lt (current_stop_loss p) (current_stop_loss p')))) \<and>
   (map_of (positions s) symb = Some p \<and> signal_type p = SHORT \<longrightarrow>
      (\<exists>p'. map_of (positions (track_ticks s symb qs)) symb = Some p' \<and> signal_type p' = SHORT \<and>
         (current_stop_loss p' = current_stop_loss p \<or>
          fl_lt (current_stop_loss p') (current_stop_loss p))))"
  using update_trailing_stop_long [of p cfg price] update_trailing_stop_short [of p cfg price]
    track_ticks_long [of s symb p qs] track_ticks_short [of s symb p qs]
  by (intro conjI impI) (simp_all only:)

theorem trailing_stop_never_loosens_witness:
  "signal_type long_position = LONG \<and>
   map_of (positions holding_strategy) ''S'' = Some long_position \<and>
   current_stop_loss (update_trailing_stop default_config long_position 120) =
     (if fl_lt (current_stop_loss long_position)
           (Finite (highest_price long_position * (1 - trailing_stop_pct default_config / 100)))
      then Finite (highest_price long_position * (1 - trailing_stop_pct default_config / 100))
      else current_stop_loss long_position) \<and>
   (\<exists>p'. map_of (positions (track_ticks holding_strategy ''S'' [quote_at 120, quote_at 118])) ''S''
            = Some p' \<and> signal_type p' = LONG \<and>
         (current_stop_loss p' = current_stop_loss long_position \<or>
          fl_lt (current_stop_loss long_position) (current_stop_loss p'))) \<and>
   signal_type short_position = SHORT \<and>
   map_of (positions short_strategy) ''S'' = Some short_position \<and>
   current_stop_loss (update_trailing_stop default_config short_position 80) =
     (if fl_lt (fl_scale (lowest_price short_position) (1 + trailing_stop_pct default_config / 100))
           (current_stop_loss short_position)
      then fl_scale (lowest_price short_position) (1 + trailing_stop_pct default_config / 100)
      else current_stop_loss short_position) \<and>
   (\<exists>p'. map_of (positions (track_ticks short_strategy ''S'' [quote_at 80, quote_at 85])) ''S''
            = Some p' \<and> signal_type p' = SHORT \<and>
         (current_stop_loss p' = current_stop_loss short_position \<or>
          fl_lt (current_stop_loss p') (current_stop_loss short_position)))"
proof -
  have l: "signal_type long_position = LONG"
    by (simp add: long_position_def track_position_type Position_new_def Position_post_init_def)
  have lm: "map_of (positions holding_strategy) ''S'' = Some long_position"
    by (simp add: holding_strategy_def)
  have sh: "signal_type short_position = SHORT"
    by (simp add: short_position_def Position_new_def Position_post_init_def)
  have sm: "map_of (positions short_strategy) ''S'' = Some short_position"
    by (simp add: short_strategy_def)
  have ne: "LONG \<noteq> SHORT" by simp
  note a = trailing_stop_never_loosens [of long_position default_config 120 holding_strategy
      "''S''" "[quote_at 120, quote_at 118]"]
  note b = trailing_stop_never_loosens [of short_position default_config 80 short_strategy
      "''S''" "[quote_at 80, quote_at 85]"]
  have a1: "current_stop_loss (update_trailing_stop default_config long_position 120) =
     (if fl_lt (current_stop_loss long_position)
           (Finite (highest_price long_position * (1 - trailing_stop_pct default_config / 100)))
      then Finite (highest_price long_position * (1 - trailing_stop_pct default_config / 100))
      else current_stop_loss long_position)" using a l by blast
  have a2: "\<exists>p'. map_of (positions (track_ticks holding_strategy ''S'' [quote_at 120, quote_at 118])) ''S''
            = Some p' \<and> signal_type p' = LONG \<and>
         (current_stop_loss p' = current_stop_loss long_position \<or>
          fl_lt (current_stop_loss long_position) (current_stop_loss p'))" using a l lm by blast
  have b1: "current_stop_loss (update_trailing_stop default_config short_position 80) =
     (if fl_lt (fl_scale (lowest_price short_position) (1 + trailing_stop_pct default_config / 100))
           (current_stop_loss short_position)
      then fl_scale (lowest_price short_position) (1 + trailing_stop_pct default_config / 100)
      else current_stop_loss short_position)" using b sh by blast
  have b2: "\<exists>p'. map_of (positions (track_ticks short_strategy ''S'' [quote_at 80, quote_at 85])) ''S''
            = Some p' \<and> signal_type p' = SHORT \<and>
         (current_stop_loss p' = current_stop_loss short_position \<or>
          fl_lt (current_stop_loss p') (current_stop_loss short_position))" using b sh sm by blast
  show ?thesis using l lm a1 a2 sh sm b1 b2 by (intro conjI)
qed

subsection \<open>Scan\<close>

lemma execute_signal_flags:
  "breakout_detected (snd (execute_signal s signal oid)) = breakout_detected s"
  by (simp add: execute_signal_def split: option.splits sum.splits)

lemma execute_signals_flags:
  "breakout_detected (execute_signals s signals oid) = breakout_detected s"
  by (induction signals arbitrary: s) (simp_all add: execute_signal_flags)

text \<open>
  Claim C2, as amended. \<open>scan_for_breakout_signals\<close> removes nothing from
  \<open>breakout_detected\<close>: the flags after a scan are the flags before it, whether or not
  a signal was produced or admitted. A flagged instrument without an open position is
  therefore evaluated again by every later scan.
\<close>

theorem scan_keeps_breakout_flags:
  "breakout_detected (scan_for_breakout_signals s oid) = breakout_detected s"
  by (simp add: scan_for_breakout_signals_def Let_def execute_signals_flags)

text \<open>
  Claim C2 as stated fails. The upper breakout of the instrument is flagged, it has no
  position, its quote is at 110 against a POC of 100; the candidate is evaluated and
  rejected by the volume filter, and after the scan the flag is still there.
\<close>

theorem scan_consumes_breakout_counterexample:
  "map_of (breakout_detected pending_strategy) ''S'' = Some ''VAH'' \<and>
   map_of (positions pending_strategy) ''S'' = None \<and>
   evaluate_breakout_signal pending_strategy ''S'' ''VAH'' (quote_at 110) example_profile = None \<and>
   map_of (breakout_detected (scan_for_breakout_signals pending_strategy ''VP_S_0'')) ''S''
     = Some ''VAH''"
  by code_simp

subsection \<open>Sizing\<close>

lemma py_int_floor: "0 \<le> x \<Longrightarrow> py_int x = \<lfloor>x\<rfloor>"
  by (simp add: py_int_def)

lemma size_core:
  "(if py_int x \<le> 0 then None else Some (py_int x)) = Some q \<longleftrightarrow> 0 < q \<and> q = \<lfloor>x\<rfloor>"
proof -
  have a: "(if py_int x \<le> 0 then None else Some (py_int x)) = Some q
             \<longleftrightarrow> 0 < py_int x \<and> q = py_int x" by auto
  have b: "0 < py_int x \<and> q = py_int x \<longleftrightarrow> 0 < q \<and> q = \<lfloor>x\<rfloor>"
  proof (cases "0 \<le> x")
    case True
    then have "py_int x = \<lfloor>x\<rfloor>" by (rule py_int_floor)
    then show ?thesis by auto
  next
    case neg: False
    then have "py_int x = \<lceil>x\<rceil>" by (simp add: py_int_def)
    moreover have "\<lceil>x\<rceil> \<le> 0" using neg by (simp add: ceiling_le_zero)
    moreover have "\<lfloor>x\<rfloor> \<le> 0" using neg by (simp add: floor_le_zero)
    ultimately show ?thesis by auto
  qed
  show ?thesis using a b by (rule trans)
qed

lemma position_size_Some:
  "position_size cfg signal = Some q \<longleftrightarrow>
     sig_entry_price signal \<noteq> sig_stop_loss signal \<and> 0 < q \<and>
     q = \<lfloor>portfolio_value cfg * risk_per_trade_pct cfg / 100
           / \<bar>sig_entry_price signal - sig_stop_loss signal\<bar>\<rfloor>"
proof (cases "sig_entry_price signal = sig_stop_loss signal")
  case True
  then show ?thesis by (simp add: position_size_def)
next
  case False
  then have "\<not> \<bar>sig_entry_price signal - sig_stop_loss signal\<bar> \<le> 0" by simp
  then have ps: "position_size cfg signal =
      (if py_int (portfolio_value cfg * risk_per_trade_pct cfg / 100
           / \<bar>sig_entry_price signal - sig_stop_loss signal\<bar>) \<le> 0 then None
       else Some (py_int (portfolio_value cfg * risk_per_trade_pct cfg / 100
           / \<bar>sig_entry_price signal - sig_stop_loss signal\<bar>)))"
    by (simp only: position_size_def Let_def if_False)
  show ?thesis using False by (simp only: ps size_core simp_thms)
qed

lemma position_size_None:
  "position_size cfg signal = None \<longleftrightarrow>
     sig_entry_price signal = sig_stop_loss signal \<or>
     \<lfloor>portfolio_value cfg * risk_per_trade_pct cfg / 100
        / \<bar>sig_entry_price signal - sig_stop_loss signal\<bar>\<rfloor> \<le> 0"
proof -
  let ?f = "\<lfloor>portfolio_value cfg * risk_per_trade_pct cfg / 100
        / \<bar>sig_entry_price signal - sig_stop_loss signal\<bar>\<rfloor>"
  have "position_size cfg signal = None \<longleftrightarrow> (\<forall>q. position_size cfg signal \<noteq> Some q)"
    by auto
  also have "\<dots> \<longleftrightarrow> (\<forall>q. \<not> (sig_entry_price signal \<noteq> sig_stop_loss signal \<and> 0 < q \<and> q = ?f))"
    by (simp only: position_size_Some)
  also have "\<dots> \<longleftrightarrow> sig_entry_price signal = sig_stop_loss signal \<or> ?f \<le> 0"
    by (metis not_less)
  finally show ?thesis .
qed

text \<open>
  Claim C5, as amended. The size of a position for a signal is
  \<open>floor (portfolio_value * risk_per_trade_pct / 100 / |entry - stop|)\<close> when entry and
  stop differ and that number is positive; otherwise there is no size and
  \<open>execute_signal\<close> refuses the open and leaves the state as it is. A \<open>Position\<close>,
  when constructed, has its current stop equal to its initial stop; a long position has
  its highest price seeded from the entry price and its lowest price set to infinity, a
  short position has its lowest price seeded from the entry price and its highest price
  set to zero. With \<open>risk_per_trade_pct = 1\<close>, \<open>portfolio_value = 100000\<close>,
  \<open>entry = 100\<close> and \<open>stop = 90\<close> the size is 100.
\<close>

theorem position_sizing_and_seeding:
  "(position_size cfg signal = Some q \<longleftrightarrow>
      sig_entry_price signal \<noteq> sig_stop_loss signal \<and> 0 < q \<and>
      q = \<lfloor>portfolio_value cfg * risk_per_trade_pct cfg / 100
            / \<bar>sig_entry_price signal - sig_stop_loss signal\<bar>\<rfloor>) \<and>
   (sig_entry_price signal = sig_stop_loss signal \<or>
    \<lfloor>portfolio_value (strategy_config s) * risk_per_trade_pct (strategy_config s) / 100
       / \<bar>sig_entry_price signal - sig_stop_loss signal\<bar>\<rfloor> \<le> 0
      \<longrightarrow> execute_signal s signal oid = (False, s)) \<and>
   current_stop_loss (Position_new symb dir entry qty stop target pp ph pl lvl t1 t2) = Finite stop \<and>
   (dir = LONG \<longrightarrow>
      highest_price (Position_new symb dir entry qty stop target pp ph pl lvl t1 t2) = entry \<and>
      lowest_price (Position_new symb dir entry qty stop target pp ph pl lvl t1 t2) = PosInf) \<and>
   (dir = SHORT \<longrightarrow>
      lowest_price (Position_new symb dir entry qty stop target pp ph pl lvl t1 t2) = Finite entry \<and>
      highest_price (Position_new symb dir entry qty stop target pp ph pl lvl t1 t2) = 0) \<and>
   (portfolio_value cfg = 100000 \<and> risk_per_trade_pct cfg = 1 \<and>
    sig_entry_price signal = 100 \<and> sig_stop_loss signal = 90
      \<longrightarrow> position_size cfg signal = Some 100)"
proof (intro conjI impI)
  show "position_size cfg signal = Some q \<longleftrightarrow>
      sig_entry_price signal \<noteq> sig_stop_loss signal \<and> 0 < q \<and>
      q = \<lfloor>portfolio_value cfg * risk_per_trade_pct cfg / 100
            / \<bar>sig_entry_price signal - sig_stop_loss signal\<bar>\<rfloor>"
    by (rule position_size_Some)
next
  assume "sig_entry_price signal = sig_stop_loss signal \<or>
    \<lfloor>portfolio_value (strategy_config s) * risk_per_trade_pct (strategy_config s) / 100
       / \<bar>sig_entry_price signal - sig_stop_loss signal\<bar>\<rfloor> \<le> 0"
  then have "position_size (strategy_config s) signal = None"
    by (simp only: position_size_None)
  then show "execute_signal s signal oid = (False, s)"
    by (simp add: execute_signal_def)
next
  show "current_stop_loss (Position_new symb dir entry qty stop target pp ph pl lvl t1 t2) = Finite stop"
    by (simp add: Position_new_def Position_post_init_def)
next
  assume "dir = LONG"
  then show "highest_price (Position_new symb dir entry qty stop target pp ph pl lvl t1 t2) = entry"
    and "lowest_price (Position_new symb dir entry qty stop target pp ph pl lvl t1 t2) = PosInf"
    by (simp_all add: Position_new_def Position_post_init_def)
next
  assume "dir = SHORT"
  then show "lowest_price (Position_new symb dir entry qty stop target pp ph pl lvl t1 t2) = Finite entry"
    and "highest_price (Position_new symb dir entry qty stop target pp ph pl lvl t1 t2) = 0"
    by (simp_all add: Position_new_def Position_post_init_def)
next
  assume "portfolio_value cfg = 100000 \<and> risk_per_trade_pct cfg = 1 \<and>
    sig_entry_price signal = 100 \<and> sig_stop_loss signal = 90"
  then show "position_size cfg signal = Some 100"
    by (simp add: position_size_def py_int_def)
qed

theorem position_sizing_and_seeding_witness:
  "position_size default_config example_signal = Some 100 \<and>
   execute_signal idle_strategy (example_signal\<lparr>sig_stop_loss := 100\<rparr>) ''VP_S_0''
     = (False, idle_strategy) \<and>
   lowest_price (Position_new ''S'' LONG 100 100 90 110 100 105 95 105 0 0) = PosInf \<and>
   highest_price (Position_new ''S'' LONG 100 100 90 110 100 105 95 105 0 0) = 100 \<and>
   lowest_price (Position_new ''S'' SHORT 100 (-100) 110 90 100 105 95 95 0 0) = Finite 100 \<and>
   highest_price (Position_new ''S'' SHORT 100 (-100) 110 90 100 105 95 95 0 0) = 0"
proof -
  have c: "portfolio_value default_config = 100000 \<and> risk_per_trade_pct default_config = 1 \<and>
    sig_entry_price example_signal = 100 \<and> sig_stop_loss example_signal = 90"
    by (simp add: default_config_def example_signal_def)
  have e: "sig_entry_price (example_signal\<lparr>sig_stop_loss := 100\<rparr>)
         = sig_stop_loss (example_signal\<lparr>sig_stop_loss := 100\<rparr>)"
    by (simp add: example_signal_def)
  note t1 = position_sizing_and_seeding [of default_config example_signal 100 idle_strategy
      "''VP_S_0''" "''S''" LONG 100 100 90 110 100 105 95 105 0 0]
  note t2 = position_sizing_and_seeding [of default_config "example_signal\<lparr>sig_stop_loss := 100\<rparr>"
      100 idle_strategy "''VP_S_0''" "''S''" SHORT 100 "-100" 110 90 100 105 95 95 0 0]
  show ?thesis using c e t1 t2 by blast
qed

text \<open>
  Claim C5 as stated fails: a long position entered at 100 starts with the lowest price
  at infinity, a short position entered at 100 with the highest price at zero.
\<close>

theorem position_seeding_counterexample:
  "lowest_price (Position_new ''S'' LONG 100 100 90 110 100 105 95 105 0 0) = PosInf \<and>
   entry_price (Position_new ''S'' LONG 100 100 90 110 100 105 95 105 0 0) = 100 \<and>
   highest_price (Position_new ''S'' SHORT 100 (-100) 110 90 100 105 95 95 0 0) = 0 \<and>
   entry_price (Position_new ''S'' SHORT 100 (-100) 110 90 100 105 95 95 0 0) = 100"
  by code_simp

subsection \<open>Monitoring\<close>

lemma close_position_unchanged: "close_position s symb reason breakout_type = s"
  by (simp add: close_position_def create_trade_result_from_position_def split: option.splits)

text \<open>
  Claim C7, at an input where the code departs from it. The long position has its stop
  at 115.42 and its target at 110, and the quote is at 112. The monitoring step selects
  the position once, with the reason \<open>STOP_LOSS\<close>; closing it fails inside
  \<open>create_trade_result_from_position\<close>, so the position is still open afterwards and
  no trade has been recorded.
\<close>

theorem monitor_keeps_stopped_position:
  "positions_to_close holding_strategy (positions holding_strategy)
     = [(''S'', ''STOP_LOSS'', ''VAH_BREAKOUT'')] \<and>
   map_option current_stop_loss (map_of (positions holding_strategy) ''S'') = Some (Finite (5771 / 50)) \<and>
   map_option target_price (map_of (positions holding_strategy) ''S'') = Some 110 \<and>
   map_option ltp (live_quotes holding_strategy ''S'') = Some 112 \<and>
   map_of (positions (monitor_positions holding_strategy)) ''S''
     = map_of (positions holding_strategy) ''S'' \<and>
   completed_trades (monitor_positions holding_strategy) = []"
  by code_simp

end
